theory Spec2Isabelle
  imports Complex_Main "HOL-Library.Word"
begin

section \<open>Layer/group resolver (src/misc.c)\<close>

text \<open>
  \<^verbatim>\<open>PCB->LayerGroups\<close> holds two fixed-size C arrays: \<^verbatim>\<open>Number[group]\<close>, the number of
  layers of a group, and \<^verbatim>\<open>Entries[group][entry]\<close>, the layer numbers of the group. They are
  modelled as functions of the indices. The constant \<^verbatim>\<open>MAX_LAYER\<close> comes from a header that is
  not part of the sources at hand, so it is a parameter of the model.
\<close>

record LayerGroupType =
  Number :: "nat \<Rightarrow> nat"
  Entries :: "nat \<Rightarrow> nat \<Rightarrow> nat"

text \<open>
  The inner loop of \<^verbatim>\<open>GetLayerGroupNumberByNumber\<close>:
  \<^verbatim>\<open>for (entry = 0; entry < PCB->LayerGroups.Number[group]; entry++)
    if (PCB->LayerGroups.Entries[group][entry] == Layer) return (group);\<close>
  The result says whether the \<^verbatim>\<open>return\<close> is reached from position \<open>entry\<close> on.
\<close>

function scan_entry :: "LayerGroupType \<Rightarrow> nat \<Rightarrow> nat \<Rightarrow> nat \<Rightarrow> bool" where
  "scan_entry lg Layer grp entry =
     (if entry < Number lg grp
      then (if Entries lg grp entry = Layer then True
            else scan_entry lg Layer grp (Suc entry))
      else False)"
  by pat_completeness auto
termination
  by (relation "measure (\<lambda>(lg, Layer, grp, entry). Number lg grp - entry)") auto

text \<open>
  The outer loop \<^verbatim>\<open>for (group = 0; group < MAX_LAYER; group++)\<close>, and the
  \<^verbatim>\<open>return (group)\<close> that follows it.
\<close>

function scan_group :: "nat \<Rightarrow> LayerGroupType \<Rightarrow> nat \<Rightarrow> nat \<Rightarrow> nat" where
  "scan_group MAX_LAYER lg Layer grp =
     (if grp < MAX_LAYER
      then (if scan_entry lg Layer grp 0 then grp
            else scan_group MAX_LAYER lg Layer (Suc grp))
      else grp)"
  by pat_completeness auto
termination
  by (relation "measure (\<lambda>(MAX_LAYER, lg, Layer, grp). MAX_LAYER - grp)") auto

declare scan_entry.simps [simp del] scan_group.simps [simp del]

definition GetLayerGroupNumberByNumber :: "nat \<Rightarrow> LayerGroupType \<Rightarrow> nat \<Rightarrow> nat" where
  "GetLayerGroupNumberByNumber MAX_LAYER lg Layer = scan_group MAX_LAYER lg Layer 0"

text \<open>
  The values of \<^verbatim>\<open>group\<close> for which the body of the outer loop runs, in order: the groups
  the function examines.
\<close>

function examined_groups :: "nat \<Rightarrow> LayerGroupType \<Rightarrow> nat \<Rightarrow> nat \<Rightarrow> nat list" where
  "examined_groups MAX_LAYER lg Layer grp =
     (if grp < MAX_LAYER
      then grp # (if scan_entry lg Layer grp 0 then []
                    else examined_groups MAX_LAYER lg Layer (Suc grp))
      else [])"
  by pat_completeness auto
termination
  by (relation "measure (\<lambda>(MAX_LAYER, lg, Layer, grp). MAX_LAYER - grp)") auto

declare examined_groups.simps [simp del]

text \<open>A group contains a layer when one of its first \<^verbatim>\<open>Number[group]\<close> entries is the layer.\<close>

definition in_group :: "LayerGroupType \<Rightarrow> nat \<Rightarrow> nat \<Rightarrow> bool" where
  "in_group lg Layer grp = (Layer \<in> set (map (Entries lg grp) [0..<Number lg grp]))"

text \<open>A table of eight groups: group 0 holds layers 0 and 1, group 1 holds layers 2 and 3.\<close>

definition lg_example :: LayerGroupType where
  "lg_example = \<lparr> Number = (\<lambda>g. if g = 0 \<or> g = 1 then 2 else 0),
                  Entries = (\<lambda>g e. 2 * g + e) \<rparr>"

lemma scan_entry_iff:
  "scan_entry lg Layer grp entry
     = (\<exists>e. entry \<le> e \<and> e < Number lg grp \<and> Entries lg grp e = Layer)"
proof (induction lg Layer grp entry rule: scan_entry.induct)
  case (1 lg Layer grp entry)
  show ?case
  proof (cases "entry < Number lg grp")
    case False
    then show ?thesis by (subst scan_entry.simps) auto
  next
    case True
    show ?thesis
    proof (cases "Entries lg grp entry = Layer")
      case True
      with \<open>entry < Number lg grp\<close> show ?thesis
        by (subst scan_entry.simps) auto
    next
      case False
      have "scan_entry lg Layer grp entry = scan_entry lg Layer grp (Suc entry)"
        using True False by (subst scan_entry.simps) simp
      also have "\<dots> = (\<exists>e. Suc entry \<le> e \<and> e < Number lg grp \<and> Entries lg grp e = Layer)"
        using "1.IH" True False by simp
      also have "\<dots> = (\<exists>e. entry \<le> e \<and> e < Number lg grp \<and> Entries lg grp e = Layer)"
        using False by (metis Suc_leD Suc_leI le_neq_implies_less)
      finally show ?thesis .
    qed
  qed
qed

lemma scan_entry_in_group: "scan_entry lg Layer grp 0 = in_group lg Layer grp"
  by (auto simp: scan_entry_iff in_group_def)

lemma scan_group_spec:
  "grp \<le> MAX_LAYER \<Longrightarrow>
   (let r = scan_group MAX_LAYER lg Layer grp in
      grp \<le> r \<and> r \<le> MAX_LAYER \<and> (\<forall>g. grp \<le> g \<and> g < r \<longrightarrow> \<not> in_group lg Layer g)
      \<and> (r < MAX_LAYER \<longrightarrow> in_group lg Layer r))"
proof (induction MAX_LAYER lg Layer grp rule: scan_group.induct)
  case (1 MAX_LAYER lg Layer grp)
  show ?case
  proof (cases "grp < MAX_LAYER")
    case False
    with "1.prems" show ?thesis by (subst scan_group.simps) (auto simp: Let_def)
  next
    case lt: True
    show ?thesis
    proof (cases "scan_entry lg Layer grp 0")
      case True
      with lt show ?thesis
        by (subst scan_group.simps) (auto simp: Let_def scan_entry_in_group)
    next
      case False
      have eq: "scan_group MAX_LAYER lg Layer grp = scan_group MAX_LAYER lg Layer (Suc grp)"
        using lt False by (subst scan_group.simps) simp
      have ih: "let r = scan_group MAX_LAYER lg Layer (Suc grp) in
          Suc grp \<le> r \<and> r \<le> MAX_LAYER
          \<and> (\<forall>g. Suc grp \<le> g \<and> g < r \<longrightarrow> \<not> in_group lg Layer g)
          \<and> (r < MAX_LAYER \<longrightarrow> in_group lg Layer r)"
        using "1.IH" lt False by simp
      have "\<not> in_group lg Layer grp"
        using False by (simp add: scan_entry_in_group)
      with ih show ?thesis
        unfolding eq Let_def
        by (metis Suc_leD Suc_leI le_neq_implies_less)
    qed
  qed
qed

text \<open>
  C9 (as amended). The resolver is a total function. When some group below \<^verbatim>\<open>MAX_LAYER\<close>
  contains the layer, it returns the first such group. When no group contains the layer,
  it returns \<^verbatim>\<open>MAX_LAYER\<close> itself: the value of the loop counter after the loop, one past
  the last group that was examined.
\<close>

theorem GetLayerGroupNumberByNumber_first_or_MAX_LAYER:
  "(let r = GetLayerGroupNumberByNumber MAX_LAYER lg Layer in
     if \<exists>g<MAX_LAYER. in_group lg Layer g
     then r < MAX_LAYER \<and> in_group lg Layer r \<and> (\<forall>g<r. \<not> in_group lg Layer g)
     else r = MAX_LAYER)"
proof -
  let ?r = "scan_group MAX_LAYER lg Layer 0"
  have spec: "?r \<le> MAX_LAYER" "\<forall>g. g < ?r \<longrightarrow> \<not> in_group lg Layer g"
    "?r < MAX_LAYER \<longrightarrow> in_group lg Layer ?r"
    using scan_group_spec [of 0 MAX_LAYER lg Layer] by (simp_all add: Let_def)
  show ?thesis
  proof (cases "\<exists>g<MAX_LAYER. in_group lg Layer g")
    case True
    then obtain g where g: "g < MAX_LAYER" "in_group lg Layer g" by blast
    have "?r \<le> g" using spec(2) g(2) by (meson not_le)
    then have "?r < MAX_LAYER" using g(1) by simp
    with spec True show ?thesis
      by (simp add: GetLayerGroupNumberByNumber_def Let_def)
  next
    case False
    then have "\<not> ?r < MAX_LAYER" using spec(3) by blast
    with spec(1) have "?r = MAX_LAYER" by simp
    with False show ?thesis
      by (simp add: GetLayerGroupNumberByNumber_def Let_def)
  qed
qed

lemma examined_groups_example: "examined_groups 8 lg_example 9 0 = [0, 1, 2, 3, 4, 5, 6, 7]"
  by code_simp

lemma GetLayerGroupNumberByNumber_example_no_group:
  "GetLayerGroupNumberByNumber 8 lg_example 9 = 8"
  by code_simp

lemma lg_example_contains_3: "\<exists>g<8. in_group lg_example 3 g"
  by (rule exI [of _ 1]) (simp add: in_group_def lg_example_def)

lemma lg_example_lacks_9: "\<not> (\<exists>g<8. in_group lg_example 9 g)"
  by (auto simp: in_group_def lg_example_def)

theorem GetLayerGroupNumberByNumber_first_or_MAX_LAYER_witness:
  "(\<exists>g<8. in_group lg_example 3 g)
   \<and> GetLayerGroupNumberByNumber 8 lg_example 3 < 8
   \<and> in_group lg_example 3 (GetLayerGroupNumberByNumber 8 lg_example 3)
   \<and> \<not> (\<exists>g<8. in_group lg_example 9 g)
   \<and> GetLayerGroupNumberByNumber 8 lg_example 9 = 8"
  using GetLayerGroupNumberByNumber_first_or_MAX_LAYER [of 8 lg_example 3]
    GetLayerGroupNumberByNumber_first_or_MAX_LAYER [of 8 lg_example 9]
    lg_example_contains_3 lg_example_lacks_9
  by (simp add: Let_def)

text \<open>
  C9 as stated fails: with eight groups none of which contains layer 9, the loop examines
  the groups 0 to 7, and the function returns 8, which is not the last examined group.
\<close>

theorem GetLayerGroupNumberByNumber_fallback_counterexample:
  "GetLayerGroupNumberByNumber 8 lg_example 9 \<noteq> last (examined_groups 8 lg_example 9 0)"
  by (simp add: examined_groups_example GetLayerGroupNumberByNumber_example_no_group)

section \<open>Polygon emission (src/hid/kicad/kicad.c, the body of \<^verbatim>\<open>POLYGON_LOOP\<close>)\<close>

text \<open>
  A board object is known by its address: the flag bits live in the object, and the net
  assignment table compares addresses. The model names an object by a number.
\<close>

type_synonym obj = nat

record PointType =
  X :: int
  Y :: int

text \<open>
  A polygon has \<^verbatim>\<open>PointN\<close> points in \<^verbatim>\<open>Points\<close> and \<^verbatim>\<open>HoleIndexN\<close> hole start indices in
  \<^verbatim>\<open>HoleIndex\<close>; the two counts are the lengths of the lists.
\<close>

record PolygonType =
  polygon_ID :: obj
  Points :: "PointType list"
  HoleIndex :: "nat list"
  FULLPOLYFLAG :: bool

definition PointN :: "PolygonType \<Rightarrow> nat" where
  "PointN p = length (Points p)"

definition HoleIndexN :: "PolygonType \<Rightarrow> nat" where
  "HoleIndexN p = length (HoleIndex p)"

text \<open>
  What the point loops print: \<^verbatim>\<open>"\t\t\t\t(xy %f %f)"\<close> for the first point of an output
  line, \<^verbatim>\<open>" (xy %f %f)"\<close> for a later one, and the line break. The conversion of the
  coordinates to millimetres is left to the printer: a token carries the point.
\<close>

datatype pts_token = XYFirst PointType | XYNext PointType | NewLine

text \<open>
  A block of the output is what is printed from a header to its footer: the filled zone
  (\<^verbatim>\<open>kicad_zone_header\<close>, with net id, net name, layer name and island removal mode) or a
  keepout zone (\<^verbatim>\<open>kicad_keepout_header\<close>, with net id and layer name), and the point
  tokens in between. The identifier of a block comes from \<^verbatim>\<open>rand()\<close> and the island area
  from the board; they are not part of the model.
\<close>

datatype zone_block =
  FilledZone int "string option" string nat "pts_token list"
  | KeepoutZone int string "pts_token list"

fun block_tokens :: "zone_block \<Rightarrow> pts_token list" where
  "block_tokens (FilledZone net_id net_name layername full ts) = ts"
| "block_tokens (KeepoutZone net_id layername ts) = ts"

fun is_filled :: "zone_block \<Rightarrow> bool" where
  "is_filled (FilledZone net_id net_name layername full ts) = True"
| "is_filled (KeepoutZone net_id layername ts) = False"

fun is_keepout :: "zone_block \<Rightarrow> bool" where
  "is_keepout (FilledZone net_id net_name layername full ts) = False"
| "is_keepout (KeepoutZone net_id layername ts) = True"

fun token_points :: "pts_token list \<Rightarrow> PointType list" where
  "token_points [] = []"
| "token_points (XYFirst p # ts) = p # token_points ts"
| "token_points (XYNext p # ts) = p # token_points ts"
| "token_points (NewLine # ts) = token_points ts"

definition block_points :: "zone_block \<Rightarrow> PointType list" where
  "block_points b = token_points (block_tokens b)"

text \<open>
  The point loop \<^verbatim>\<open>for (n = ...; n < EndPointN; n++)\<close> with the line counter \<^verbatim>\<open>np\<close>:
  it returns the tokens and the counter it leaves behind. Reading \<^verbatim>\<open>Points[n]\<close> outside
  the array is the value \<open>None\<close>.
\<close>

function emit_points ::
  "PointType list \<Rightarrow> nat \<Rightarrow> nat \<Rightarrow> nat \<Rightarrow> (pts_token list \<times> nat) option" where
  "emit_points pts n EndPointN np =
     (if n < EndPointN then
        (if n < length pts then
           (let tok = (if np = 0 then XYFirst (pts ! n) else XYNext (pts ! n));
                np1 = np + 1
            in if np1 > 6
               then map_option (\<lambda>(ts, np'). (tok # NewLine # ts, np'))
                      (emit_points pts (Suc n) EndPointN 0)
               else map_option (\<lambda>(ts, np'). (tok # ts, np'))
                      (emit_points pts (Suc n) EndPointN np1))
         else None)
      else Some ([], np))"
  by pat_completeness auto
termination
  by (relation "measure (\<lambda>(pts, n, EndPointN, np). EndPointN - n)") auto

declare emit_points.simps [simp del]

text \<open>The \<^verbatim>\<open>if (np != 0) fprintf (fp, "\n")\<close> after a point loop; \<^verbatim>\<open>np\<close> keeps its value.\<close>

definition close_line :: "pts_token list \<Rightarrow> nat \<Rightarrow> pts_token list" where
  "close_line ts np = (if np \<noteq> 0 then ts @ [NewLine] else ts)"

text \<open>
  The loop over the holes, \<^verbatim>\<open>for (int h = 0; h < polygon->HoleIndexN; h++)\<close>. Hole \<open>h\<close> ends
  at \<^verbatim>\<open>HoleIndex[h+1]\<close>, the last one at \<^verbatim>\<open>PointN\<close>.
\<close>

function emit_holes ::
  "PolygonType \<Rightarrow> int \<Rightarrow> string \<Rightarrow> nat \<Rightarrow> nat \<Rightarrow> zone_block list option" where
  "emit_holes polygon net_id layername h np =
     (if h < HoleIndexN polygon then
        (let EndPointN = (if h + 1 < HoleIndexN polygon then HoleIndex polygon ! (h + 1)
                          else PointN polygon)
         in case emit_points (Points polygon) (HoleIndex polygon ! h) EndPointN np of
              None \<Rightarrow> None
            | Some (ts, np') \<Rightarrow>
                map_option (\<lambda>bs. KeepoutZone net_id layername (close_line ts np') # bs)
                  (emit_holes polygon net_id layername (Suc h) np'))
      else Some [])"
  by pat_completeness auto
termination
  by (relation "measure (\<lambda>(polygon, net_id, layername, h, np). HoleIndexN polygon - h)") auto

declare emit_holes.simps [simp del]

text \<open>
  The body of \<^verbatim>\<open>POLYGON_LOOP\<close> for one polygon of a copper layer, with the net descriptor
  that \<^verbatim>\<open>kicad_get_net_assign\<close> gave (or net 0) passed in as its id and its name as
  \<^verbatim>\<open>%s\<close> prints it.
\<close>

definition emit_polygon ::
  "PolygonType \<Rightarrow> int \<Rightarrow> string option \<Rightarrow> string \<Rightarrow> zone_block list option" where
  "emit_polygon polygon net_id net_name layername =
     (let full = (if FULLPOLYFLAG polygon then 2 else 0);
          PointN' = (if HoleIndexN polygon > 0 then HoleIndex polygon ! 0 else PointN polygon)
      in case emit_points (Points polygon) 0 PointN' 0 of
           None \<Rightarrow> None
         | Some (ts, np) \<Rightarrow>
             map_option (\<lambda>bs. FilledZone net_id net_name layername full (close_line ts np) # bs)
               (emit_holes polygon net_id layername 0 np))"

text \<open>
  The points of the outer boundary and of hole \<open>h\<close>, as the data model has them: the
  outer boundary runs up to the first hole index, hole \<open>h\<close> from its index up to the next.
\<close>

definition outer_points :: "PolygonType \<Rightarrow> PointType list" where
  "outer_points p =
     (case HoleIndex p of [] \<Rightarrow> Points p | i # _ \<Rightarrow> take i (Points p))"

definition hole_end :: "PolygonType \<Rightarrow> nat \<Rightarrow> nat" where
  "hole_end p h = (if h + 1 < length (HoleIndex p) then HoleIndex p ! (h + 1) else length (Points p))"

definition hole_points :: "PolygonType \<Rightarrow> nat \<Rightarrow> PointType list" where
  "hole_points p h = drop (HoleIndex p ! h) (take (hole_end p h) (Points p))"

text \<open>
  A polygon is well formed when its hole indices are in ascending order and none lies
  beyond the point list.
\<close>

definition polygon_wf :: "PolygonType \<Rightarrow> bool" where
  "polygon_wf p = (sorted (HoleIndex p) \<and> list_all (\<lambda>i. i \<le> length (Points p)) (HoleIndex p))"

text \<open>
  An example: a square with two triangular holes, ten points, holes starting at 4 and 7.
\<close>

definition poly_example :: PolygonType where
  "poly_example = \<lparr> polygon_ID = 7, Points =
       [\<lparr>X = 0, Y = 0\<rparr>, \<lparr>X = 90, Y = 0\<rparr>, \<lparr>X = 90, Y = 90\<rparr>, \<lparr>X = 0, Y = 90\<rparr>,
        \<lparr>X = 10, Y = 10\<rparr>, \<lparr>X = 20, Y = 10\<rparr>, \<lparr>X = 10, Y = 20\<rparr>,
        \<lparr>X = 50, Y = 50\<rparr>, \<lparr>X = 60, Y = 50\<rparr>, \<lparr>X = 50, Y = 60\<rparr>],
     HoleIndex = [4, 7], FULLPOLYFLAG = False \<rparr>"

lemma token_points_close_line [simp]: "token_points (close_line ts np) = token_points ts"
  by (induction ts rule: token_points.induct) (auto simp: close_line_def)

lemma emit_points_ok:
  "n \<le> EndPointN \<Longrightarrow> EndPointN \<le> length pts \<Longrightarrow>
   \<exists>ts np'. emit_points pts n EndPointN np = Some (ts, np')
     \<and> token_points ts = drop n (take EndPointN pts)"
proof (induction pts n EndPointN np rule: emit_points.induct)
  case (1 pts n EndPointN np)
  show ?case
  proof (cases "n < EndPointN")
    case False
    with "1.prems" show ?thesis by (subst emit_points.simps) simp
  next
    case True
    then have len: "n < length pts" using "1.prems" by simp
    have dr: "drop n (take EndPointN pts) = pts ! n # drop (Suc n) (take EndPointN pts)"
      using True len by (simp add: Cons_nth_drop_Suc [symmetric])
    show ?thesis
    proof (cases "np + 1 > 6")
      case wrap: True
      obtain ts np' where r: "emit_points pts (Suc n) EndPointN 0 = Some (ts, np')"
        "token_points ts = drop (Suc n) (take EndPointN pts)"
        using "1.IH"(1) [OF True len refl refl wrap] True "1.prems" by auto
      show ?thesis
        using True len wrap r dr by (subst emit_points.simps) (simp add: Let_def)
    next
      case nowrap: False
      obtain ts np' where r: "emit_points pts (Suc n) EndPointN (np + 1) = Some (ts, np')"
        "token_points ts = drop (Suc n) (take EndPointN pts)"
        using "1.IH"(2) [OF True len refl refl nowrap] True "1.prems" by auto
      show ?thesis
        using True len nowrap r dr by (subst emit_points.simps) (simp add: Let_def)
    qed
  qed
qed

lemma drop_take_append_drop:
  "a \<le> b \<Longrightarrow> b \<le> length xs \<Longrightarrow> drop a (take b xs) @ drop b xs = drop a xs"
proof -
  assume ab: "a \<le> b" and b: "b \<le> length xs"
  have "drop a xs = drop a (take b xs @ drop b xs)" by simp
  also have "\<dots> = drop a (take b xs) @ drop (a - length (take b xs)) (drop b xs)"
    by (rule drop_append)
  also have "a - length (take b xs) = 0" using ab b by simp
  finally show ?thesis by simp
qed

lemma wf_nth_le:
  "polygon_wf p \<Longrightarrow> h < length (HoleIndex p) \<Longrightarrow> HoleIndex p ! h \<le> length (Points p)"
  by (simp add: polygon_wf_def list_all_length)

lemma wf_nth_mono:
  "polygon_wf p \<Longrightarrow> Suc h < length (HoleIndex p) \<Longrightarrow> HoleIndex p ! h \<le> HoleIndex p ! Suc h"
  by (simp add: polygon_wf_def sorted_iff_nth_Suc)

lemma wf_hole_bounds:
  assumes "polygon_wf p" "h < length (HoleIndex p)"
  shows "HoleIndex p ! h \<le> hole_end p h" "hole_end p h \<le> length (Points p)"
  using assms wf_nth_le [of p "Suc h"] wf_nth_le [of p h] wf_nth_mono [of p h]
  by (auto simp: hole_end_def)

lemma emit_holes_ok:
  "polygon_wf polygon \<Longrightarrow> h \<le> HoleIndexN polygon \<Longrightarrow>
   \<exists>bs. emit_holes polygon net_id layername h np = Some bs
     \<and> list_all is_keepout bs
     \<and> map block_points bs = map (hole_points polygon) [h..<HoleIndexN polygon]"
proof (induction polygon net_id layername h np rule: emit_holes.induct)
  case (1 polygon net_id layername h np)
  show ?case
  proof (cases "h < HoleIndexN polygon")
    case False
    with "1.prems" show ?thesis by (subst emit_holes.simps) simp
  next
    case True
    let ?E = "if h + 1 < HoleIndexN polygon then HoleIndex polygon ! (h + 1) else PointN polygon"
    have E: "?E = hole_end polygon h"
      by (simp add: hole_end_def HoleIndexN_def PointN_def)
    have hl: "h < length (HoleIndex polygon)" using True by (simp add: HoleIndexN_def)
    obtain ts np' where pts: "emit_points (Points polygon) (HoleIndex polygon ! h) ?E np = Some (ts, np')"
      "token_points ts = hole_points polygon h"
      using emit_points_ok [of "HoleIndex polygon ! h" ?E "Points polygon" np]
        wf_hole_bounds [OF "1.prems"(1) hl] unfolding E hole_points_def by auto
    obtain bs where bs: "emit_holes polygon net_id layername (Suc h) np' = Some bs"
      "list_all is_keepout bs"
      "map block_points bs = map (hole_points polygon) [Suc h..<HoleIndexN polygon]"
      using "1.IH" [OF True refl pts(1) refl "1.prems"(1)] True by auto
    have up: "[h..<HoleIndexN polygon] = h # [Suc h..<HoleIndexN polygon]"
      using True by (simp add: upt_conv_Cons)
    show ?thesis
      using True pts bs unfolding up
      by (subst emit_holes.simps) (simp add: Let_def block_points_def)
  qed
qed

lemma holes_concat:
  assumes wf: "polygon_wf p"
  shows "h < length (HoleIndex p) \<Longrightarrow>
     concat (map (hole_points p) [h..<length (HoleIndex p)]) = drop (HoleIndex p ! h) (Points p)"
proof (induction "length (HoleIndex p) - h" arbitrary: h)
  case 0
  then show ?case by simp
next
  case (Suc k)
  have up: "[h..<length (HoleIndex p)] = h # [Suc h..<length (HoleIndex p)]"
    using Suc.prems by (simp add: upt_conv_Cons)
  show ?case
  proof (cases "Suc h < length (HoleIndex p)")
    case False
    then have "[Suc h..<length (HoleIndex p)] = []" by simp
    with False Suc.prems show ?thesis
      unfolding up by (simp add: hole_points_def hole_end_def)
  next
    case True
    have ih: "concat (map (hole_points p) [Suc h..<length (HoleIndex p)])
        = drop (HoleIndex p ! Suc h) (Points p)"
      using Suc.hyps(1) [of "Suc h"] Suc.hyps(2) True by simp
    have "hole_points p h = drop (HoleIndex p ! h) (take (HoleIndex p ! Suc h) (Points p))"
      using True by (simp add: hole_points_def hole_end_def)
    then show ?thesis
      unfolding up using ih drop_take_append_drop [OF wf_nth_mono [OF wf True] wf_nth_le [OF wf True]]
      by simp
  qed
qed

lemma polygon_partition:
  assumes wf: "polygon_wf p"
  shows "outer_points p @ concat (map (hole_points p) [0..<length (HoleIndex p)]) = Points p"
proof (cases "HoleIndex p")
  case Nil
  then show ?thesis by (simp add: outer_points_def)
next
  case (Cons i js)
  then have "0 < length (HoleIndex p)" by simp
  from holes_concat [OF wf this] Cons show ?thesis
    by (simp add: outer_points_def)
qed

text \<open>
  The body of \<^verbatim>\<open>POLYGON_LOOP\<close> for a well-formed polygon with \<open>H\<close> holes gives one
  filled-zone block, whose points are the points of the outer boundary, followed by
  \<open>H\<close> keepout blocks, the \<open>h\<close>-th holding the points of hole \<open>h\<close>; the points of
  the blocks, taken in order, are the point list of the polygon.
\<close>

lemma emit_polygon_blocks:
  assumes wf: "polygon_wf polygon"
  shows "\<exists>b bs. emit_polygon polygon net_id net_name layername = Some (b # bs)
     \<and> is_filled b \<and> block_points b = outer_points polygon
     \<and> list_all is_keepout bs \<and> length bs = HoleIndexN polygon
     \<and> map block_points bs = map (hole_points polygon) [0..<HoleIndexN polygon]
     \<and> concat (map block_points (b # bs)) = Points polygon"
proof -
  let ?P = "if HoleIndexN polygon > 0 then HoleIndex polygon ! 0 else PointN polygon"
  have P: "?P \<le> length (Points polygon)"
    using wf_nth_le [OF wf, of 0] by (simp add: HoleIndexN_def PointN_def)
  have outer: "take ?P (Points polygon) = outer_points polygon"
    by (cases "HoleIndex polygon") (simp_all add: outer_points_def HoleIndexN_def PointN_def)
  obtain ts np where pts: "emit_points (Points polygon) 0 ?P 0 = Some (ts, np)"
    "token_points ts = outer_points polygon"
    using emit_points_ok [of 0 ?P "Points polygon" 0] P outer by auto
  obtain bs where bs: "emit_holes polygon net_id layername 0 np = Some bs"
    "list_all is_keepout bs"
    "map block_points bs = map (hole_points polygon) [0..<HoleIndexN polygon]"
    using emit_holes_ok [OF wf, of 0 net_id layername np] by auto
  have len: "length bs = HoleIndexN polygon"
    using arg_cong [OF bs(3), of length] by simp
  let ?b = "FilledZone net_id net_name layername (if FULLPOLYFLAG polygon then 2 else 0) (close_line ts np)"
  have "emit_polygon polygon net_id net_name layername = Some (?b # bs)"
    using pts(1) bs(1) by (simp add: emit_polygon_def Let_def)
  moreover have "block_points ?b = outer_points polygon"
    using pts(2) by (simp add: block_points_def)
  moreover have "concat (map block_points (?b # bs)) = Points polygon"
    using polygon_partition [OF wf] bs(3) \<open>block_points ?b = outer_points polygon\<close>
    by (simp add: HoleIndexN_def)
  ultimately show ?thesis using bs(2,3) len by auto
qed

lemma poly_example_wf: "polygon_wf poly_example"
  by (simp add: polygon_wf_def poly_example_def)

lemma emit_polygon_blocks_example:
  "polygon_wf poly_example
   \<and> (\<exists>b bs. emit_polygon poly_example 1 (Some ''GND'') ''F.Cu'' = Some (b # bs)
     \<and> is_filled b \<and> block_points b = outer_points poly_example
     \<and> list_all is_keepout bs \<and> length bs = HoleIndexN poly_example
     \<and> map block_points bs = map (hole_points poly_example) [0..<HoleIndexN poly_example]
     \<and> concat (map block_points (b # bs)) = Points poly_example)"
proof -
  have wf: "polygon_wf poly_example" by (rule poly_example_wf)
  from wf emit_polygon_blocks [OF wf, of 1 "Some ''GND''" "''F.Cu''"] show ?thesis
    by (rule conjI)
qed

text \<open>
  The output for the example. The line counter is not reset between the blocks: the first
  keepout block continues the count of the filled zone, so its first point is printed as
  a continuation.
\<close>

lemma emit_polygon_example:
  "emit_polygon poly_example 1 (Some ''GND'') ''F.Cu'' = Some
     [FilledZone 1 (Some ''GND'') ''F.Cu'' 0
        [XYFirst \<lparr>X = 0, Y = 0\<rparr>, XYNext \<lparr>X = 90, Y = 0\<rparr>, XYNext \<lparr>X = 90, Y = 90\<rparr>,
         XYNext \<lparr>X = 0, Y = 90\<rparr>, NewLine],
      KeepoutZone 1 ''F.Cu''
        [XYNext \<lparr>X = 10, Y = 10\<rparr>, XYNext \<lparr>X = 20, Y = 10\<rparr>, XYNext \<lparr>X = 10, Y = 20\<rparr>,
         NewLine],
      KeepoutZone 1 ''F.Cu''
        [XYFirst \<lparr>X = 50, Y = 50\<rparr>, XYNext \<lparr>X = 60, Y = 50\<rparr>, XYNext \<lparr>X = 50, Y = 60\<rparr>,
         NewLine]]"
  by code_simp

section \<open>The net table (src/hid/kicad/kicad.c, \<^verbatim>\<open>kicad_print\<close>)\<close>

text \<open>
  \<^verbatim>\<open>typedef struct { int net_id; char net_name[16]; } net_descriptor;\<close>
  The name is kept as the sixteen bytes of the array. The descriptors lie in one
  \<^verbatim>\<open>calloc\<close>ed array, so the bytes after \<^verbatim>\<open>net_name\<close> of one descriptor are the bytes of
  \<^verbatim>\<open>net_id\<close> of the next: with a four-byte \<^verbatim>\<open>int\<close> the struct has twenty bytes and no
  padding. The byte order of \<^verbatim>\<open>int\<close> is taken to be little-endian, as on the x86 and ARM
  machines the program is built for.
\<close>

record net_descriptor =
  net_id :: int
  net_name :: "char list"

definition NUL :: char where
  "NUL = CHR 0x00"

definition zero_desc :: net_descriptor where
  "zero_desc = \<lparr> net_id = 0, net_name = replicate 16 NUL \<rparr>"

definition int_bytes :: "int \<Rightarrow> char list" where
  "int_bytes n = map (\<lambda>k. char_of (n div 256 ^ k)) [0, 1, 2, 3]"

definition desc_bytes :: "net_descriptor \<Rightarrow> char list" where
  "desc_bytes d = int_bytes (net_id d) @ net_name d"

text \<open>
  \<^verbatim>\<open>strcpy (dst, src)\<close> writes the characters of \<open>src\<close> and a terminating NUL over the
  start of \<open>dst\<close>; \<^verbatim>\<open>strncpy (dst, src, 16)\<close> writes sixteen bytes: the first sixteen
  characters of \<open>src\<close>, padded with NUL when \<open>src\<close> is shorter, and no NUL when it is not.
  A C string ends at its first NUL.
\<close>

definition c_str :: "char list \<Rightarrow> char list" where
  "c_str bs = takeWhile (\<lambda>c. c \<noteq> NUL) bs"

definition strcpy_into :: "char list \<Rightarrow> string \<Rightarrow> char list" where
  "strcpy_into dst src = (let s = c_str src @ [NUL] in s @ drop (length s) dst)"

definition strncpy_16 :: "string \<Rightarrow> char list" where
  "strncpy_16 src = (let s = take 16 (c_str src) in s @ replicate (16 - length s) NUL)"

text \<open>
  What \<^verbatim>\<open>%s\<close> prints for \<^verbatim>\<open>net_descs[k].net_name\<close>: the bytes from the start of the name up
  to the first NUL, wherever that is. When the rest of the array holds no NUL the read
  leaves the allocation; the behaviour is undefined and the value is \<open>None\<close>.
\<close>

definition print_net_name :: "net_descriptor list \<Rightarrow> nat \<Rightarrow> string option" where
  "print_net_name net_descs k =
     (let bs = net_name (net_descs ! k) @ concat (map desc_bytes (drop (Suc k) net_descs))
      in if NUL \<in> set bs then Some (c_str bs) else None)"

text \<open>
  The netlist: \<^verbatim>\<open>PCB->NetlistLib.Menu[i]\<close> has a \<^verbatim>\<open>Name\<close> and the entries
  \<^verbatim>\<open>Entry[j].ListEntry\<close>.
\<close>

record LibraryMenuType =
  menu_Name :: string
  menu_Entry :: "string list"

text \<open>
  The items of the output document. An item stands for one block that \<^verbatim>\<open>kicad_print\<close>
  writes and carries the fields of the block that are text or integers; coordinates and
  sizes, which are printed as floating-point millimetres, and the random identifiers are
  not part of the model.
  \<^item> \<open>DocHeader\<close>: \<^verbatim>\<open>kicad_header\<close>, the page settings and \<^verbatim>\<open>kicad_layers\<close>;
  \<^item> \<open>NetLine n s\<close>: \<^verbatim>\<open>"\t(net %d \"%s\")\n"\<close>;
  \<^item> \<open>FootprintHeader name layer\<close>, \<open>Property key text layer\<close>, \<open>FpLine layer\<close>,
    \<open>FootprintEnd\<close>: the parts of a footprint block;
  \<^item> \<open>PadLine number kind n s\<close>: a \<^verbatim>\<open>(pad ...)\<close> block with its \<^verbatim>\<open>(net %d "%s")\<close> line;
  \<^item> \<open>ViaLine n\<close>, \<open>SegmentLine layer n\<close>, \<open>ArcLine layer n\<close>: blocks with a \<^verbatim>\<open>(net %d)\<close> line;
  \<^item> \<open>Zone b\<close>: a filled zone or a keepout zone;
  \<^item> \<open>GrLine layer\<close>, \<open>GrArc layer\<close>, \<open>GrText text layer\<close>: graphics of the other layers;
  \<^item> \<open>DocEnd\<close>: the closing parenthesis.
\<close>

datatype out_item =
  DocHeader
  | NetLine int "string option"
  | FootprintHeader string string
  | Property string string string
  | PadLine string string int "string option"
  | FpLine string
  | FootprintEnd
  | ViaLine int
  | SegmentLine string int
  | ArcLine string int
  | Zone zone_block
  | GrLine string
  | GrArc string
  | GrText string string
  | DocEnd

text \<open>
  The loop \<^verbatim>\<open>for (i=0; i<PCB->NetlistLib.MenuN; i++)\<close> over the nets, with the growth of
  the descriptor array by one hundred zeroed entries when it is full.
\<close>

fun net_table_loop ::
  "LibraryMenuType list \<Rightarrow> net_descriptor list \<Rightarrow> nat \<Rightarrow> nat \<Rightarrow> int
     \<Rightarrow> net_descriptor list \<times> out_item list" where
  "net_table_loop [] net_descs num_net_descs max_net_descs netnum = (net_descs, [])"
| "net_table_loop (m # ms) net_descs num_net_descs max_net_descs netnum =
     (let netname = dropWhile (\<lambda>c. c = CHR '' '') (menu_Name m);
          grown = (num_net_descs \<ge> max_net_descs);
          net_descs1 = (if grown then net_descs @ replicate 100 zero_desc else net_descs);
          max_net_descs1 = (if grown then max_net_descs + 100 else max_net_descs);
          net_descs2 = net_descs1[num_net_descs :=
                         \<lparr> net_id = netnum, net_name = strncpy_16 netname \<rparr>];
          item = NetLine netnum (print_net_name net_descs2 num_net_descs);
          (net_descs3, items) =
             net_table_loop ms net_descs2 (num_net_descs + 1) max_net_descs1 (netnum + 1)
      in (net_descs3, item # items))"

text \<open>
  The start of the table: the array of one hundred zeroed descriptors, the name of
  descriptor 0 set by \<^verbatim>\<open>strcpy(net_descs[num_net_descs].net_name, "0")\<close>, its line printed
  with \<^verbatim>\<open>netnum = 0\<close>, and then the loop.
\<close>

definition net_table :: "LibraryMenuType list \<Rightarrow> net_descriptor list \<times> out_item list" where
  "net_table Menu =
     (let net_descs0 = replicate 100 zero_desc;
          net_descs1 = net_descs0[0 := (net_descs0 ! 0)
                         \<lparr> net_name := strcpy_into (net_name (net_descs0 ! 0)) ''0'' \<rparr>];
          item = NetLine 0 (print_net_name net_descs1 0);
          (net_descs2, items) = net_table_loop Menu net_descs1 1 100 1
      in (net_descs2, item # items))"

section \<open>The board model\<close>

text \<open>
  The structs of the board, with the fields the exporter and the geometry functions read.
  Coordinates are of the integer type \<^verbatim>\<open>Coord\<close> (\<^verbatim>\<open>Location\<close> in src/misc.c).
\<close>

record BoxType =
  X1 :: int
  Y1 :: int
  X2 :: int
  Y2 :: int

record PinType =
  pin_ID :: obj
  pin_X :: int
  pin_Y :: int
  pin_Thickness :: int
  pin_Number :: string
  pin_HOLEFLAG :: bool

record PadType =
  pad_ID :: obj
  pad_Point1 :: PointType
  pad_Point2 :: PointType
  pad_Thickness :: int
  pad_Number :: string

record LineType =
  line_ID :: obj
  line_Point1 :: PointType
  line_Point2 :: PointType
  line_Thickness :: int

record ArcType =
  arc_ID :: obj
  arc_X :: int
  arc_Y :: int
  arc_Width :: int
  arc_Height :: int
  arc_StartAngle :: int
  arc_Delta :: int
  arc_Thickness :: int

text \<open>
  A text object, with the bounding box that \<^verbatim>\<open>SetTextBoundingBox\<close> has stored in it (that
  function needs the font table and \<^verbatim>\<open>RotateBoxLowLevel\<close>, which are not in the sources
  at hand).
\<close>

record TextType =
  TextString :: string
  text_BoundingBox :: BoxType

text \<open>
  An element. Its three names \<^verbatim>\<open>Name[0]\<close>, \<^verbatim>\<open>Name[1]\<close>, \<^verbatim>\<open>Name[2]\<close> are the description
  (the footprint name), the name on the board (the reference designator) and the value;
  the fields carry the names of the macros that select them.
  \<open>xy_fixed_rotation\<close> is the number that \<^verbatim>\<open>atof\<close> reads from the attribute
  \<^verbatim>\<open>"xy-fixed-rotation"\<close>, when the element has it.
\<close>

record ElementType =
  DESCRIPTION_TEXT :: TextType
  NAMEONPCB_TEXT :: TextType
  VALUE_TEXT :: TextType
  MarkX :: int
  MarkY :: int
  Pin :: "PinType list"
  Pad :: "PadType list"
  Line :: "LineType list"
  Arc :: "ArcType list"
  ONSOLDERFLAG :: bool
  xy_fixed_rotation :: "real option"

text \<open>
  The layer types the exporter distinguishes; \<open>LT_OTHER\<close> stands for every other value
  of the enumeration, which is declared in a header that is not among the sources.
\<close>

datatype LayertypeType = LT_COPPER | LT_SILK | LT_OUTLINE | LT_NOTES | LT_OTHER

record LayerType =
  layer_Name :: string
  layer_Type :: LayertypeType
  layer_Line :: "LineType list"
  layer_Arc :: "ArcType list"
  layer_Polygon :: "PolygonType list"
  layer_Text :: "TextType list"

record PCBType =
  Element :: "ElementType list"
  Via :: "PinType list"
  Layer :: "LayerType list"
  NetlistLib :: "LibraryMenuType list"
  LayerGroups :: LayerGroupType

text \<open>
  What the exporter takes from outside the two source files:
  \<^item> the constants \<^verbatim>\<open>MAX_LAYER\<close> and \<^verbatim>\<open>SILK_LAYER\<close> and the variable \<^verbatim>\<open>max_copper_layer\<close>;
  \<^item> the results of \<^verbatim>\<open>GetLayerGroupNumberBySide\<close> for the top and the bottom side;
  \<^item> \<^verbatim>\<open>LookupConnectionByPin\<close>, as the set of objects it finds from a seed;
  \<^item> the file system, as the set of names \<^verbatim>\<open>fopen (name, "wb")\<close> can open.
\<close>

record kicad_env =
  env_MAX_LAYER :: nat
  env_SILK_LAYER :: nat
  env_max_copper_layer :: nat
  env_top_group :: nat
  env_bottom_group :: nat
  env_LookupConnectionByPin :: "obj \<Rightarrow> obj set"
  env_fopen_ok :: "string \<Rightarrow> bool"

section \<open>Net assignment (src/hid/kicad/kicad.c)\<close>

text \<open>
  The state the exporter changes: the flag bits \<^verbatim>\<open>VISITFLAG\<close> and \<^verbatim>\<open>FOUNDFLAG\<close> of the board
  objects, each as the set of the objects that have the bit set; the global assignment
  table \<^verbatim>\<open>kicad_net_assign\<close> with its \<^verbatim>\<open>kicad_num_net_assign\<close> entries (the length of the
  list) and its capacity \<^verbatim>\<open>kicad_max_net_assign\<close>; and the messages given to \<^verbatim>\<open>gui->log\<close>.
  A pointer to a net descriptor is the index of the descriptor in \<^verbatim>\<open>net_descs\<close>, or \<open>None\<close>
  for the null pointer. After \<^verbatim>\<open>free\<close> the table pointer is null: the table is empty and
  its capacity is 0.
\<close>

datatype log_message =
  Cannot_open_file string
  | Processing_layer string
  | Unsupported_layer_type

record kicad_state =
  VISITFLAG :: "obj set"
  FOUNDFLAG :: "obj set"
  kicad_net_assign :: "(obj \<times> nat option) list"
  kicad_max_net_assign :: nat
  messages :: "log_message list"

definition kicad_add_net_assign :: "obj \<Rightarrow> nat option \<Rightarrow> kicad_state \<Rightarrow> kicad_state" where
  "kicad_add_net_assign item net st =
     st \<lparr> kicad_net_assign := kicad_net_assign st @ [(item, net)],
          kicad_max_net_assign :=
            (if length (kicad_net_assign st) \<ge> kicad_max_net_assign st
             then kicad_max_net_assign st + 1000 else kicad_max_net_assign st) \<rparr>"

text \<open>The linear scan of \<^verbatim>\<open>kicad_get_net_assign\<close>: the first entry for the item, else null.\<close>

fun net_assign_scan :: "(obj \<times> nat option) list \<Rightarrow> obj \<Rightarrow> nat option" where
  "net_assign_scan [] item = None"
| "net_assign_scan ((i, net) # rest) item = (if item = i then net else net_assign_scan rest item)"

definition kicad_get_net_assign :: "kicad_state \<Rightarrow> obj \<Rightarrow> nat option" where
  "kicad_get_net_assign st item = net_assign_scan (kicad_net_assign st) item"

text \<open>
  Modelled from the spec: \<^verbatim>\<open>ClearFlagOnAllObjects\<close> (not in the sources) is the
  "flag-clearing primitive": no object has the flag afterwards.
\<close>

definition ClearFlagOnAllObjects :: "obj set \<Rightarrow> obj set" where
  "ClearFlagOnAllObjects flagged = {}"

text \<open>
  The block that \<^verbatim>\<open>kicad_add_net\<close> runs for every pad, pin, via, line, arc and polygon:
  \<^verbatim>\<open>if (!TEST_FLAG (VISITFLAG, o)) { if (TEST_FLAG (FOUNDFLAG, o)) {
    kicad_add_net_assign(o, net); SET_FLAG (VISITFLAG, o); } }\<close>
\<close>

definition visit_object :: "nat option \<Rightarrow> obj \<Rightarrow> kicad_state \<Rightarrow> kicad_state" where
  "visit_object net item st =
     (if item \<notin> VISITFLAG st then
        (if item \<in> FOUNDFLAG st
         then (kicad_add_net_assign item net st) \<lparr> VISITFLAG := insert item (VISITFLAG st) \<rparr>
         else st)
      else st)"

text \<open>
  The objects in the order in which the loops of \<^verbatim>\<open>kicad_add_net\<close> reach them: for every
  element its pads and then its pins, the vias, and for each of the first
  \<^verbatim>\<open>max_copper_layer\<close> layers its lines, arcs and polygons.
\<close>

definition element_objects :: "ElementType \<Rightarrow> obj list" where
  "element_objects element = map pad_ID (Pad element) @ map pin_ID (Pin element)"

definition layer_objects :: "LayerType \<Rightarrow> obj list" where
  "layer_objects layer =
     map line_ID (layer_Line layer) @ map arc_ID (layer_Arc layer)
       @ map polygon_ID (layer_Polygon layer)"

definition net_objects :: "kicad_env \<Rightarrow> PCBType \<Rightarrow> obj list" where
  "net_objects env PCB =
     concat (map element_objects (Element PCB)) @ map pin_ID (Via PCB)
       @ concat (map layer_objects (take (env_max_copper_layer env) (Layer PCB)))"

text \<open>
  \<^verbatim>\<open>kicad_add_net (type, ptr, net)\<close>: the found bits are cleared, the connection lookup sets
  them on what it finds from the seed, and the loops enter every found object that is not
  yet visited into the table with \<open>net\<close>.
\<close>

definition kicad_add_net :: "kicad_env \<Rightarrow> PCBType \<Rightarrow> obj \<Rightarrow> nat option \<Rightarrow> kicad_state \<Rightarrow> kicad_state" where
  "kicad_add_net env PCB ptr net st =
     (let st1 = st \<lparr> FOUNDFLAG := ClearFlagOnAllObjects (FOUNDFLAG st) \<rparr>;
          st2 = st1 \<lparr> FOUNDFLAG := FOUNDFLAG st1 \<union> env_LookupConnectionByPin env ptr \<rparr>
      in fold (visit_object net) (net_objects env PCB) st2)"

text \<open>
  The search of the netlist for the node name \<^verbatim>\<open>"<refdes>-<number>"\<close>. The \<^verbatim>\<open>break\<close> leaves
  the loop over the entries only, so the loop over the nets goes on and a later net with
  the same entry replaces an earlier one.
\<close>

fun find_net :: "LibraryMenuType list \<Rightarrow> nat \<Rightarrow> string \<Rightarrow> nat option \<Rightarrow> nat option" where
  "find_net [] i nodename net = net"
| "find_net (m # ms) i nodename net =
     find_net ms (i + 1) nodename (if nodename \<in> set (menu_Entry m) then Some (i + 1) else net)"

text \<open>
  The net of a pin or pad in \<^verbatim>\<open>kicad_print\<close>: an object that is not yet visited is looked
  up by name and becomes the seed of \<^verbatim>\<open>kicad_add_net\<close>; a visited one takes its net from
  the table and the netlist is not searched.
\<close>

definition resolve_net ::
  "kicad_env \<Rightarrow> PCBType \<Rightarrow> string \<Rightarrow> string \<Rightarrow> obj \<Rightarrow> kicad_state \<Rightarrow> nat option \<times> kicad_state" where
  "resolve_net env PCB refdes number item st =
     (if item \<notin> VISITFLAG st then
        (let nodename = refdes @ ''-'' @ number;
             net = find_net (NetlistLib PCB) 0 nodename None
         in (net, kicad_add_net env PCB item net st))
      else (kicad_get_net_assign st item, st))"

text \<open>\<^verbatim>\<open>if (net == 0) net = &net_descs[0];\<close>\<close>

definition net_or_0 :: "nat option \<Rightarrow> nat" where
  "net_or_0 net = (case net of None \<Rightarrow> 0 | Some k \<Rightarrow> k)"

section \<open>The exporter (src/hid/kicad/kicad.c, \<^verbatim>\<open>kicad_print\<close>)\<close>

text \<open>The \<^verbatim>\<open>(net %d "%s")\<close> line of a pad: id and name are read from the descriptor.\<close>

definition pad_item ::
  "net_descriptor list \<Rightarrow> string \<Rightarrow> string \<Rightarrow> nat option \<Rightarrow> out_item" where
  "pad_item net_descs number kind net =
     PadLine number kind (net_id (net_descs ! net_or_0 net))
       (print_net_name net_descs (net_or_0 net))"

text \<open>\<^verbatim>\<open>PIN_LOOP (element)\<close> of \<^verbatim>\<open>kicad_print\<close>.\<close>

fun pin_loop ::
  "kicad_env \<Rightarrow> PCBType \<Rightarrow> net_descriptor list \<Rightarrow> string \<Rightarrow> PinType list \<Rightarrow> kicad_state
     \<Rightarrow> out_item list \<times> kicad_state" where
  "pin_loop env PCB net_descs refdes [] st = ([], st)"
| "pin_loop env PCB net_descs refdes (pin # pins) st =
     (let (net, st1) = resolve_net env PCB refdes (pin_Number pin) (pin_ID pin) st;
          kind = (if pin_HOLEFLAG pin then ''np_thru_hole'' else ''thru_hole'');
          item = pad_item net_descs (pin_Number pin) kind net;
          (items, st2) = pin_loop env PCB net_descs refdes pins st1
      in (item # items, st2))"

text \<open>\<^verbatim>\<open>PAD_LOOP (element)\<close> of \<^verbatim>\<open>kicad_print\<close>: a pad without thickness is passed over.\<close>

fun pad_loop ::
  "kicad_env \<Rightarrow> PCBType \<Rightarrow> net_descriptor list \<Rightarrow> string \<Rightarrow> PadType list \<Rightarrow> kicad_state
     \<Rightarrow> out_item list \<times> kicad_state" where
  "pad_loop env PCB net_descs refdes [] st = ([], st)"
| "pad_loop env PCB net_descs refdes (pad # pads) st =
     (if pad_Thickness pad > 0 then
        (let (net, st1) = resolve_net env PCB refdes (pad_Number pad) (pad_ID pad) st;
             item = pad_item net_descs (pad_Number pad) ''smd'' net;
             (items, st2) = pad_loop env PCB net_descs refdes pads st1
         in (item # items, st2))
      else pad_loop env PCB net_descs refdes pads st)"

text \<open>\<^verbatim>\<open>ELEMENT_LOOP (PCB->Data)\<close> of \<^verbatim>\<open>kicad_print\<close>.\<close>

fun element_loop ::
  "kicad_env \<Rightarrow> PCBType \<Rightarrow> net_descriptor list \<Rightarrow> ElementType list \<Rightarrow> kicad_state
     \<Rightarrow> out_item list \<times> kicad_state" where
  "element_loop env PCB net_descs [] st = ([], st)"
| "element_loop env PCB net_descs (element # elements) st =
     (let onsolder = ONSOLDERFLAG element;
          clayer = (if onsolder then ''B.Cu'' else ''F.Cu'');
          slayer = (if onsolder then ''B.SilkS'' else ''F.SilkS'');
          flayer = (if onsolder then ''B.Fab'' else ''F.Fab'');
          refdes = TextString (NAMEONPCB_TEXT element);
          head = [FootprintHeader (TextString (DESCRIPTION_TEXT element)) clayer,
                  Property ''Reference'' refdes slayer,
                  Property ''Value'' (TextString (VALUE_TEXT element)) flayer,
                  Property ''Footprint'' (TextString (DESCRIPTION_TEXT element)) flayer];
          (pin_items, st1) = pin_loop env PCB net_descs refdes (Pin element) st;
          (pad_items, st2) = pad_loop env PCB net_descs refdes (Pad element) st1;
          line_items = map (\<lambda>line. FpLine slayer) (Line element);
          (items, st3) = element_loop env PCB net_descs elements st2
      in (head @ pin_items @ pad_items @ line_items @ [FootprintEnd] @ items, st3))"

text \<open>\<^verbatim>\<open>VIA_LOOP(PCB->Data)\<close> of \<^verbatim>\<open>kicad_print\<close>.\<close>

definition via_items :: "net_descriptor list \<Rightarrow> kicad_state \<Rightarrow> PinType list \<Rightarrow> out_item list" where
  "via_items net_descs st vias =
     map (\<lambda>via. ViaLine (net_id (net_descs ! net_or_0 (kicad_get_net_assign st (pin_ID via))))) vias"

text \<open>Decimal digits of a number, for \<^verbatim>\<open>sprintf(namebuf, "In%d.Cu", group)\<close>.\<close>

function decimal :: "nat \<Rightarrow> string" where
  "decimal n = (if n < 10 then [char_of (48 + n)] else decimal (n div 10) @ [char_of (48 + n mod 10)])"
  by pat_completeness auto
termination
  by (relation "measure (\<lambda>n. n)") auto

declare decimal.simps [simp del]

text \<open>
  The \<^verbatim>\<open>switch(layer->Type)\<close> of the layer loop: the name of the output layer and whether
  it is a copper layer, or \<open>None\<close> when the layer is skipped. \<^verbatim>\<open>case LT_NOTES\<close> has no
  \<^verbatim>\<open>break\<close> and falls into \<^verbatim>\<open>default\<close>.
\<close>

definition layer_switch :: "kicad_env \<Rightarrow> LayerType \<Rightarrow> nat \<Rightarrow> (string \<times> bool) option" where
  "layer_switch env layer grp =
     (case layer_Type layer of
        LT_SILK \<Rightarrow>
          Some (if grp = env_top_group env then ''F.SilkS''
                else if grp = env_bottom_group env then ''B.SilkS'' else ''F.Cu'', False)
      | LT_OUTLINE \<Rightarrow> Some (''Edge.Cuts'', False)
      | LT_COPPER \<Rightarrow>
          Some (if grp = env_top_group env then (''F.Cu'', True)
                else if grp = env_bottom_group env then (''B.Cu'', True)
                else if layer_Name layer = ''outline'' then (''Edge.Cuts'', False)
                else (''In'' @ decimal grp @ ''.Cu'', True))
      | LT_NOTES \<Rightarrow> None
      | LT_OTHER \<Rightarrow> None)"

text \<open>The objects of one layer that is not skipped.\<close>

definition layer_items ::
  "net_descriptor list \<Rightarrow> kicad_state \<Rightarrow> LayerType \<Rightarrow> string \<Rightarrow> bool \<Rightarrow> out_item list" where
  "layer_items net_descs st layer layername is_copper =
     (if is_copper then
        map (\<lambda>line. SegmentLine layername
               (net_id (net_descs ! net_or_0 (kicad_get_net_assign st (line_ID line)))))
          (layer_Line layer)
        @ map (\<lambda>arc. ArcLine layername
               (net_id (net_descs ! net_or_0 (kicad_get_net_assign st (arc_ID arc)))))
          (layer_Arc layer)
        @ concat (map (\<lambda>polygon.
               (let net = net_or_0 (kicad_get_net_assign st (polygon_ID polygon))
                in case emit_polygon polygon (net_id (net_descs ! net))
                          (print_net_name net_descs net) layername of
                     None \<Rightarrow> []
                   | Some blocks \<Rightarrow> map Zone blocks))
          (layer_Polygon layer))
      else
        map (\<lambda>line. GrLine layername) (layer_Line layer)
        @ map (\<lambda>arc. GrArc layername) (layer_Arc layer)
        @ map (\<lambda>text. GrText (TextString text) layername) (layer_Text layer))"

text \<open>
  \<^verbatim>\<open>LAYER_LOOP(PCB->Data, max_copper_layer + SILK_LAYER)\<close>: the layers with their index
  \<open>n\<close>; the result is the output and the messages.
\<close>

fun layer_loop ::
  "kicad_env \<Rightarrow> PCBType \<Rightarrow> net_descriptor list \<Rightarrow> kicad_state \<Rightarrow> nat \<Rightarrow> LayerType list
     \<Rightarrow> out_item list \<times> log_message list" where
  "layer_loop env PCB net_descs st n [] = ([], [])"
| "layer_loop env PCB net_descs st n (layer # layers) =
     (let grp = GetLayerGroupNumberByNumber (env_MAX_LAYER env) (LayerGroups PCB) n;
          (items, msgs) = layer_loop env PCB net_descs st (n + 1) layers
      in case layer_switch env layer grp of
           None \<Rightarrow> (items, Processing_layer (layer_Name layer) # Unsupported_layer_type # msgs)
         | Some (layername, is_copper) \<Rightarrow>
             (layer_items net_descs st layer layername is_copper @ items,
              Processing_layer (layer_Name layer) # msgs))"

text \<open>
  \<^verbatim>\<open>kicad_print\<close>, called with the file name in \<^verbatim>\<open>kicad_filename\<close>. The result is the return
  value, what has been written to the file, and the state. The messages about thermals
  are left out, as the thermal flags are.
\<close>

definition kicad_print ::
  "kicad_env \<Rightarrow> PCBType \<Rightarrow> string \<Rightarrow> kicad_state \<Rightarrow> int \<times> out_item list \<times> kicad_state" where
  "kicad_print env PCB kicad_filename st =
     (let st0 = st \<lparr> kicad_net_assign := [], kicad_max_net_assign := 1000 \<rparr>
      in if \<not> env_fopen_ok env kicad_filename
         then (1, [], st0 \<lparr> messages := messages st0 @ [Cannot_open_file kicad_filename] \<rparr>)
         else
           (let (net_descs, net_items) = net_table (NetlistLib PCB);
                (element_items, st1) = element_loop env PCB net_descs (Element PCB) st0;
                vias = via_items net_descs st1 (Via PCB);
                (layers, msgs) = layer_loop env PCB net_descs st1 0
                   (take (env_max_copper_layer env + env_SILK_LAYER env) (Layer PCB));
                st2 = st1 \<lparr> VISITFLAG := ClearFlagOnAllObjects (VISITFLAG st1),
                            kicad_net_assign := [], kicad_max_net_assign := 0,
                            messages := messages st1 @ msgs \<rparr>
            in (0, [DocHeader] @ net_items @ element_items @ vias @ layers @ [DocEnd], st2)))"

text \<open>
  \<^verbatim>\<open>kicad_do_export (options)\<close>. \<open>options\<close> is \<open>None\<close> for the null pointer, and else the
  string value of the option \<^verbatim>\<open>kicadfile\<close>, itself \<open>None\<close> when it is null. Without
  options the values are the defaults of the option table; \<open>default_val\<close> is the
  default of \<^verbatim>\<open>kicadfile\<close> after \<^verbatim>\<open>kicad_get_export_options\<close>, which
  \<^verbatim>\<open>derive_default_filename\<close> (not in the sources) computes from the file name of the board.
  The function returns nothing: the value of \<^verbatim>\<open>kicad_print\<close> is dropped. Saving and
  restoring the visibility of the layers around the call is not part of the model.
\<close>

definition export_filename :: "string option option \<Rightarrow> string option \<Rightarrow> string" where
  "export_filename options default_val =
     (let str_value = (case options of None \<Rightarrow> default_val | Some v \<Rightarrow> v)
      in case str_value of None \<Rightarrow> ''pcb-out.kicad_pcb'' | Some name \<Rightarrow> name)"

definition kicad_do_export ::
  "kicad_env \<Rightarrow> PCBType \<Rightarrow> string option option \<Rightarrow> string option \<Rightarrow> kicad_state
     \<Rightarrow> out_item list \<times> kicad_state" where
  "kicad_do_export env PCB options default_val st =
     snd (kicad_print env PCB (export_filename options default_val) st)"

section \<open>Properties of the net assignment\<close>

text \<open>
  The invariant of the assignment table: no object has two entries, and every object that
  has an entry has its visited bit set. It holds when the table is empty, as it is when
  \<^verbatim>\<open>kicad_print\<close> starts.
\<close>

definition assign_inv :: "kicad_state \<Rightarrow> bool" where
  "assign_inv st = (distinct (map fst (kicad_net_assign st))
     \<and> set (map fst (kicad_net_assign st)) \<subseteq> VISITFLAG st)"
















lemma assign_inv_empty: "kicad_net_assign st = [] \<Longrightarrow> assign_inv st"
  by (simp add: assign_inv_def)















section \<open>An example board\<close>

text \<open>
  The element R1 with the pins 1 and 2, a line on the top copper layer that touches
  pin 1, and a netlist of two nets, the first with a name of sixteen characters. The
  connection lookup finds the line from pin 1, and from any other object the object
  itself. A file can be opened unless its name is empty. No flag bit is set at the start.
\<close>

definition text_example :: "string \<Rightarrow> TextType" where
  "text_example s = \<lparr> TextString = s, text_BoundingBox = \<lparr> X1 = 0, Y1 = 0, X2 = 0, Y2 = 0 \<rparr> \<rparr>"

definition element_R1 :: ElementType where
  "element_R1 = \<lparr> DESCRIPTION_TEXT = text_example ''R0603'', NAMEONPCB_TEXT = text_example ''R1'',
       VALUE_TEXT = text_example ''10k'', MarkX = 0, MarkY = 0,
       Pin = [\<lparr> pin_ID = 1, pin_X = 0, pin_Y = 0, pin_Thickness = 20, pin_Number = ''1'',
                 pin_HOLEFLAG = False \<rparr>,
              \<lparr> pin_ID = 2, pin_X = 10, pin_Y = 0, pin_Thickness = 20, pin_Number = ''2'',
                 pin_HOLEFLAG = False \<rparr>],
       Pad = [], Line = [], Arc = [], ONSOLDERFLAG = False, xy_fixed_rotation = None \<rparr>"

definition layer_top :: LayerType where
  "layer_top = \<lparr> layer_Name = ''top'', layer_Type = LT_COPPER,
       layer_Line = [\<lparr> line_ID = 10, line_Point1 = \<lparr>X = 0, Y = 0\<rparr>,
                       line_Point2 = \<lparr>X = 0, Y = 50\<rparr>, line_Thickness = 10 \<rparr>],
       layer_Arc = [], layer_Polygon = [], layer_Text = [] \<rparr>"

definition netlist_example :: "LibraryMenuType list" where
  "netlist_example = [\<lparr> menu_Name = ''  ABCDEFGHIJKLMNOP'', menu_Entry = [''R1-1''] \<rparr>,
          \<lparr> menu_Name = ''  B'', menu_Entry = [''R1-2''] \<rparr>]"

definition pcb_example :: PCBType where
  "pcb_example = \<lparr> Element = [element_R1], Via = [], Layer = [layer_top],
       NetlistLib = netlist_example, LayerGroups = lg_example \<rparr>"

definition env_example :: kicad_env where
  "env_example = \<lparr> env_MAX_LAYER = 8, env_SILK_LAYER = 2, env_max_copper_layer = 1,
       env_top_group = 0, env_bottom_group = 1,
       env_LookupConnectionByPin = (\<lambda>ptr. if ptr = 1 then {1, 10} else {ptr}),
       env_fopen_ok = (\<lambda>name. name \<noteq> []) \<rparr>"

definition st_example :: kicad_state where
  "st_example = \<lparr> VISITFLAG = {}, FOUNDFLAG = {}, kicad_net_assign = [],
       kicad_max_net_assign = 0, messages = [] \<rparr>"

definition pcb_empty :: PCBType where
  "pcb_empty = \<lparr> Element = [], Via = [], Layer = [], NetlistLib = [], LayerGroups = lg_example \<rparr>"



lemma element_loop_example:
  "snd (element_loop env_example pcb_example (fst (net_table netlist_example))
         (Element pcb_example) st_example)
     = \<lparr> VISITFLAG = {1, 2, 10}, FOUNDFLAG = {2},
         kicad_net_assign = [(1, Some 1), (10, Some 1), (2, Some 2)],
         kicad_max_net_assign = 1000, messages = [] \<rparr>"
  by code_simp


section \<open>Properties of the exporter\<close>

lemma kicad_print_example:
  "kicad_print env_example pcb_example ''out.kicad_pcb'' st_example =
     (0,
      [DocHeader, NetLine 0 (Some ''0''), NetLine 1 (Some ''ABCDEFGHIJKLMNOP''),
       NetLine 2 (Some ''B''),
       FootprintHeader ''R0603'' ''F.Cu'', Property ''Reference'' ''R1'' ''F.SilkS'',
       Property ''Value'' ''10k'' ''F.Fab'', Property ''Footprint'' ''R0603'' ''F.Fab'',
       PadLine ''1'' ''thru_hole'' 1 (Some (''ABCDEFGHIJKLMNOP'' @ [CHR 0x02])),
       PadLine ''2'' ''thru_hole'' 2 (Some ''B''), FootprintEnd,
       SegmentLine ''F.Cu'' 1, DocEnd],
      \<lparr> VISITFLAG = {}, FOUNDFLAG = {2}, kicad_net_assign = [], kicad_max_net_assign = 0,
        messages = [Processing_layer ''top''] \<rparr>)"
  by code_simp

lemma kicad_print_empty:
  "kicad_print env_example pcb_empty ''out.kicad_pcb'' st_example =
     (0, [DocHeader, NetLine 0 (Some ''0''), DocEnd],
      \<lparr> VISITFLAG = {}, FOUNDFLAG = {}, kicad_net_assign = [], kicad_max_net_assign = 0,
        messages = [] \<rparr>)"
  by code_simp

lemma print_net_name_0:
  "print_net_name ((replicate 100 zero_desc)
      [0 := zero_desc \<lparr> net_name := strcpy_into (net_name zero_desc) ''0'' \<rparr>]) 0
     = Some ''0''"
  by (simp add: print_net_name_def strcpy_into_def c_str_def NUL_def zero_desc_def Let_def)

lemma net_table_first: "\<exists>rest. snd (net_table Menu) = NetLine 0 (Some ''0'') # rest"
  by (simp add: net_table_def Let_def case_prod_beta print_net_name_0)

text \<open>
  C1 (as amended). Whenever the output file can be opened, the document starts with the
  header and then the line of net 0, so that this line stands before every other net
  line; the name printed for net 0 is the string \<^verbatim>\<open>"0"\<close>, whatever the netlist holds.
\<close>

theorem kicad_print_net_0_first:
  "env_fopen_ok env kicad_filename \<Longrightarrow>
   \<exists>rest. fst (snd (kicad_print env PCB kicad_filename st))
     = DocHeader # NetLine 0 (Some ''0'') # rest"
proof -
  assume ok: "env_fopen_ok env kicad_filename"
  obtain rest where rest: "snd (net_table (NetlistLib PCB)) = NetLine 0 (Some ''0'') # rest"
    using net_table_first by blast
  show ?thesis
    using ok rest by (simp add: kicad_print_def Let_def case_prod_beta)
qed

theorem kicad_print_net_0_first_witness:
  "env_fopen_ok env_example ''out.kicad_pcb''
   \<and> (\<exists>rest. fst (snd (kicad_print env_example pcb_example ''out.kicad_pcb'' st_example))
     = DocHeader # NetLine 0 (Some ''0'') # rest)"
proof -
  have ok: "env_fopen_ok env_example ''out.kicad_pcb''" by (simp add: env_example_def)
  from ok kicad_print_net_0_first [OF ok, of pcb_example st_example] show ?thesis
    by (rule conjI)
qed

text \<open>
  C1 as stated fails: in the document of the empty board the line of net 0 does not have
  the empty string as its name.
\<close>

theorem kicad_print_net_0_name_counterexample:
  "\<not> (\<exists>rest. fst (snd (kicad_print env_example pcb_empty ''out.kicad_pcb'' st_example))
     = DocHeader # NetLine 0 (Some []) # rest)"
  by (simp add: kicad_print_empty)

text \<open>
  C7 (as amended). \<^verbatim>\<open>kicad_print\<close> returns 0 when the output file can be opened and 1 when
  it cannot. When it cannot, nothing has been written, the visited and found bits of the
  board objects are as they were, and the one message logged is that the file cannot be
  opened. The entry point \<^verbatim>\<open>kicad_do_export\<close> returns nothing: it runs \<^verbatim>\<open>kicad_print\<close> with
  the file name of its option and drops the status. The name is \<^verbatim>\<open>"pcb-out.kicad_pcb"\<close>
  when the file name of the options in effect is null; these are the options of the
  caller or, when the caller gives none, the defaults of the option table, so that a
  default that is not null is the name used then.
\<close>

theorem kicad_print_status:
  "(let (rc, out, st') = kicad_print env PCB kicad_filename st in
      if env_fopen_ok env kicad_filename then rc = 0
      else rc = 1 \<and> out = [] \<and> VISITFLAG st' = VISITFLAG st \<and> FOUNDFLAG st' = FOUNDFLAG st
           \<and> messages st' = messages st @ [Cannot_open_file kicad_filename])
   \<and> export_filename (Some None) default_val = ''pcb-out.kicad_pcb''
   \<and> export_filename None None = ''pcb-out.kicad_pcb''
   \<and> export_filename (Some (Some name)) default_val = name
   \<and> export_filename None (Some name) = name
   \<and> kicad_do_export env PCB options default_val st
       = snd (kicad_print env PCB (export_filename options default_val) st)"
  by (simp add: kicad_print_def export_filename_def kicad_do_export_def Let_def case_prod_beta)

text \<open>
  C7 as stated fails. \<^verbatim>\<open>kicad_do_export\<close> is a \<^verbatim>\<open>void\<close> function, and without options it
  does not use \<^verbatim>\<open>"pcb-out.kicad_pcb"\<close> when the option table has a default: called with the
  null pointer for the options and the default \<^verbatim>\<open>"board.kicad_pcb"\<close> where no file can be
  opened, it tries to open \<^verbatim>\<open>"board.kicad_pcb"\<close>, as the message tells, and what it gives
  back holds no status.
\<close>

definition env_closed :: kicad_env where
  "env_closed = env_example \<lparr> env_fopen_ok := (\<lambda>name. False) \<rparr>"

theorem kicad_do_export_no_options_counterexample:
  "export_filename None (Some ''board.kicad_pcb'') \<noteq> ''pcb-out.kicad_pcb''
   \<and> kicad_do_export env_closed pcb_empty None (Some ''board.kicad_pcb'') st_example
       = ([], st_example \<lparr> kicad_max_net_assign := 1000,
                            messages := [Cannot_open_file ''board.kicad_pcb''] \<rparr>)"
  by (simp add: export_filename_def kicad_do_export_def kicad_print_def env_closed_def
      st_example_def Let_def)

text \<open>
  What a successful \<^verbatim>\<open>kicad_print\<close> does release: no object is left visited, and the
  assignment table is gone.
\<close>

lemma kicad_print_releases:
  "env_fopen_ok env kicad_filename \<Longrightarrow>
   VISITFLAG (snd (snd (kicad_print env PCB kicad_filename st))) = {}
   \<and> kicad_net_assign (snd (snd (kicad_print env PCB kicad_filename st))) = []
   \<and> kicad_max_net_assign (snd (snd (kicad_print env PCB kicad_filename st))) = 0"
  by (simp add: kicad_print_def Let_def case_prod_beta ClearFlagOnAllObjects_def)

text \<open>
  C8 fails on the code. \<^verbatim>\<open>kicad_print\<close> ends with \<^verbatim>\<open>ClearFlagOnAllObjects(VISITFLAG, true)\<close>
  and releases the two tables, but nothing clears the found bits that the last call of
  \<^verbatim>\<open>kicad_add_net\<close> has set: on the example board no object has its found bit set before
  the export, and pin 2 has it afterwards.
\<close>

theorem kicad_print_leaves_FOUNDFLAG:
  "FOUNDFLAG st_example = {}
   \<and> FOUNDFLAG (snd (snd (kicad_print env_example pcb_example ''out.kicad_pcb'' st_example))) = {2}"
proof -
  have "FOUNDFLAG st_example = {}" by (simp add: st_example_def)
  moreover have
    "FOUNDFLAG (snd (snd (kicad_print env_example pcb_example ''out.kicad_pcb'' st_example))) = {2}"
    by (simp add: kicad_print_example)
  ultimately show ?thesis by (rule conjI)
qed

text \<open>
  C10 fails on the code. \<^verbatim>\<open>strncpy (net_name, netname, 16)\<close> leaves a name of sixteen or
  more characters without its terminating NUL, so \<^verbatim>\<open>%s\<close> reads on into the next
  descriptor. In the net table the next descriptor is still zero and the sixteen
  characters are printed; when the pad of pin 1 is printed, the next descriptor has its
  \<^verbatim>\<open>net_id = 2\<close>, and the name printed for the net of the pad has seventeen bytes.
\<close>

theorem kicad_print_long_net_name:
  "PadLine ''1'' ''thru_hole'' 1 (Some (''ABCDEFGHIJKLMNOP'' @ [CHR 0x02]))
     \<in> set (fst (snd (kicad_print env_example pcb_example ''out.kicad_pcb'' st_example)))"
  by (simp add: kicad_print_example)

section \<open>The polygons of the exported document\<close>

text \<open>
  The zone blocks of a document, in the order of the document, and what matters of a
  block for the shape of a polygon: whether it is the filled zone or a keepout zone, and
  its points.
\<close>

fun zone_blocks :: "out_item list \<Rightarrow> zone_block list" where
  "zone_blocks [] = []"
| "zone_blocks (Zone b # items) = b # zone_blocks items"
| "zone_blocks (item # items) = zone_blocks items"

definition block_shape :: "zone_block \<Rightarrow> bool \<times> PointType list" where
  "block_shape b = (is_filled b, block_points b)"

text \<open>
  The blocks a polygon with \<open>H\<close> holes is to give: one filled zone with the points of the
  outer boundary, then for each hole one keepout zone with the points of the hole.
\<close>

definition polygon_shape :: "PolygonType \<Rightarrow> (bool \<times> PointType list) list" where
  "polygon_shape polygon =
     (True, outer_points polygon)
       # map (\<lambda>h. (False, hole_points polygon h)) [0..<HoleIndexN polygon]"

text \<open>
  The polygons on the emitted copper layers of a board, in the order of the layers: a
  layer is emitted when it is among the first \<^verbatim>\<open>max_copper_layer + SILK_LAYER\<close> layers and
  the layer switch does not skip it, and it is a copper layer when the switch says so.
\<close>

definition emitted_copper_polygons :: "kicad_env \<Rightarrow> PCBType \<Rightarrow> PolygonType list" where
  "emitted_copper_polygons env PCB =
     concat (map (\<lambda>n.
         case layer_switch env (Layer PCB ! n)
                (GetLayerGroupNumberByNumber (env_MAX_LAYER env) (LayerGroups PCB) n) of
           None \<Rightarrow> []
         | Some (layername, is_copper) \<Rightarrow>
             if is_copper then layer_Polygon (Layer PCB ! n) else [])
       [0..<min (env_max_copper_layer env + env_SILK_LAYER env) (length (Layer PCB))])"

lemma zone_blocks_append: "zone_blocks (xs @ ys) = zone_blocks xs @ zone_blocks ys"
  by (induction xs rule: zone_blocks.induct) simp_all

lemma zone_blocks_map_Zone: "zone_blocks (map Zone bs) = bs"
  by (induction bs) simp_all

lemma zone_blocks_map_other:
  "(\<And>x. zone_blocks [f x] = []) \<Longrightarrow> zone_blocks (map f xs) = []"
proof (induction xs)
  case Nil
  show ?case by simp
next
  case (Cons x xs)
  have "zone_blocks (map f (x # xs)) = zone_blocks ([f x] @ map f xs)" by simp
  also have "\<dots> = zone_blocks [f x] @ zone_blocks (map f xs)" by (rule zone_blocks_append)
  finally show ?case using Cons by simp
qed

lemma zone_blocks_net_table_loop:
  "zone_blocks (snd (net_table_loop Menu net_descs num_net_descs max_net_descs netnum)) = []"
  by (induction Menu arbitrary: net_descs num_net_descs max_net_descs netnum)
    (simp_all add: Let_def case_prod_beta)

lemma zone_blocks_net_table: "zone_blocks (snd (net_table Menu)) = []"
  by (simp add: net_table_def Let_def case_prod_beta zone_blocks_net_table_loop)

lemma zone_blocks_pin_loop:
  "zone_blocks (fst (pin_loop env PCB net_descs refdes pins st)) = []"
  by (induction pins arbitrary: st) (simp_all add: Let_def case_prod_beta pad_item_def)

lemma zone_blocks_pad_loop:
  "zone_blocks (fst (pad_loop env PCB net_descs refdes pads st)) = []"
  by (induction pads arbitrary: st) (simp_all add: Let_def case_prod_beta pad_item_def)

lemma zone_blocks_element_loop:
  "zone_blocks (fst (element_loop env PCB net_descs elements st)) = []"
  by (induction elements arbitrary: st)
    (simp_all add: Let_def case_prod_beta zone_blocks_append zone_blocks_pin_loop
      zone_blocks_pad_loop zone_blocks_map_other)

lemma zone_blocks_via_items: "zone_blocks (via_items net_descs st vias) = []"
  by (simp add: via_items_def zone_blocks_map_other)

lemma keepout_not_filled: "is_keepout b \<Longrightarrow> \<not> is_filled b"
  by (cases b) simp_all

lemma emit_polygon_shape:
  assumes "polygon_wf polygon"
  shows "\<exists>blocks. emit_polygon polygon netid netname layername = Some blocks
           \<and> map block_shape blocks = polygon_shape polygon"
proof -
  obtain b bs where e: "emit_polygon polygon netid netname layername = Some (b # bs)"
    and b: "is_filled b" "block_points b = outer_points polygon"
    and bs: "list_all is_keepout bs" "length bs = HoleIndexN polygon"
      "map block_points bs = map (hole_points polygon) [0..<HoleIndexN polygon]"
    using emit_polygon_blocks [OF assms, of netid netname layername] by blast
  have "map block_shape bs = map (\<lambda>h. (False, hole_points polygon h)) [0..<HoleIndexN polygon]"
  proof (rule nth_equalityI)
    show "length (map block_shape bs)
        = length (map (\<lambda>h. (False, hole_points polygon h)) [0..<HoleIndexN polygon])"
      using bs(2) by simp
  next
    fix i
    assume "i < length (map block_shape bs)"
    then have i: "i < length bs" by simp
    have "is_keepout (bs ! i)" using bs(1) i by (simp add: list_all_length)
    then have nf: "\<not> is_filled (bs ! i)" by (rule keepout_not_filled)
    have "map block_points bs ! i = map (hole_points polygon) [0..<HoleIndexN polygon] ! i"
      using bs(3) by simp
    then have "block_points (bs ! i) = hole_points polygon i"
      using i bs(2) by simp
    with nf i bs(2)
    show "map block_shape bs ! i
        = map (\<lambda>h. (False, hole_points polygon h)) [0..<HoleIndexN polygon] ! i"
      by (simp add: block_shape_def)
  qed
  with e b show ?thesis by (simp add: block_shape_def polygon_shape_def)
qed

lemma zone_blocks_polygons:
  "\<forall>polygon\<in>set polygons. polygon_wf polygon \<Longrightarrow>
   map block_shape (zone_blocks (concat (map (\<lambda>polygon.
       (let net = net_or_0 (kicad_get_net_assign st (polygon_ID polygon))
        in case emit_polygon polygon (net_id (net_descs ! net))
                  (print_net_name net_descs net) layername of
             None \<Rightarrow> []
           | Some blocks \<Rightarrow> map Zone blocks)) polygons)))
     = concat (map polygon_shape polygons)"
proof (induction polygons)
  case Nil
  show ?case by simp
next
  case (Cons polygon polygons)
  let ?net = "net_or_0 (kicad_get_net_assign st (polygon_ID polygon))"
  obtain blocks where blocks:
    "emit_polygon polygon (net_id (net_descs ! ?net)) (print_net_name net_descs ?net) layername
       = Some blocks"
    "map block_shape blocks = polygon_shape polygon"
    using emit_polygon_shape [of polygon "net_id (net_descs ! ?net)"
        "print_net_name net_descs ?net" layername] Cons.prems by auto
  have "\<forall>polygon\<in>set polygons. polygon_wf polygon" using Cons.prems by simp
  then show ?case
    using Cons.IH blocks by (simp add: Let_def zone_blocks_append zone_blocks_map_Zone)
qed

lemma zone_blocks_layer_items:
  "\<forall>polygon\<in>set (layer_Polygon layer). polygon_wf polygon \<Longrightarrow>
   map block_shape (zone_blocks (layer_items net_descs st layer layername is_copper))
     = (if is_copper then concat (map polygon_shape (layer_Polygon layer)) else [])"
  by (simp add: layer_items_def zone_blocks_append zone_blocks_map_other zone_blocks_polygons)

text \<open>The polygons that the layer loop emits from the layers with the numbers from \<open>n\<close> on.\<close>

fun loop_polygons :: "kicad_env \<Rightarrow> PCBType \<Rightarrow> nat \<Rightarrow> LayerType list \<Rightarrow> PolygonType list" where
  "loop_polygons env PCB n [] = []"
| "loop_polygons env PCB n (layer # layers) =
     (case layer_switch env layer
             (GetLayerGroupNumberByNumber (env_MAX_LAYER env) (LayerGroups PCB) n) of
        None \<Rightarrow> []
      | Some (layername, is_copper) \<Rightarrow> if is_copper then layer_Polygon layer else [])
     @ loop_polygons env PCB (n + 1) layers"

lemma zone_blocks_layer_loop:
  "\<forall>polygon\<in>set (loop_polygons env PCB n layers). polygon_wf polygon \<Longrightarrow>
   map block_shape (zone_blocks (fst (layer_loop env PCB net_descs st n layers)))
     = concat (map polygon_shape (loop_polygons env PCB n layers))"
proof (induction layers arbitrary: n)
  case Nil
  show ?case by simp
next
  case (Cons layer layers)
  let ?grp = "GetLayerGroupNumberByNumber (env_MAX_LAYER env) (LayerGroups PCB) n"
  have rest: "\<forall>polygon\<in>set (loop_polygons env PCB (n + 1) layers). polygon_wf polygon"
    using Cons.prems by simp
  note ih = Cons.IH [OF rest]
  show ?case
  proof (cases "layer_switch env layer ?grp")
    case None
    then show ?thesis using ih by (simp add: Let_def case_prod_beta)
  next
    case (Some r)
    obtain layername is_copper where r: "r = (layername, is_copper)" by (cases r)
    have wf: "is_copper \<Longrightarrow> \<forall>polygon\<in>set (layer_Polygon layer). polygon_wf polygon"
      using Cons.prems Some r by simp
    have here: "map block_shape (zone_blocks (layer_items net_descs st layer layername is_copper))
        = (if is_copper then concat (map polygon_shape (layer_Polygon layer)) else [])"
    proof (cases is_copper)
      case True
      then show ?thesis using zone_blocks_layer_items [OF wf [OF True]] by simp
    next
      case False
      then show ?thesis
        by (simp add: layer_items_def zone_blocks_append zone_blocks_map_other)
    qed
    show ?thesis
      using Some r ih here by (simp add: Let_def case_prod_beta zone_blocks_append)
  qed
qed

lemma loop_polygons_index:
  "loop_polygons env PCB n layers =
     concat (map (\<lambda>i.
         case layer_switch env (layers ! i)
                (GetLayerGroupNumberByNumber (env_MAX_LAYER env) (LayerGroups PCB) (n + i)) of
           None \<Rightarrow> []
         | Some (layername, is_copper) \<Rightarrow> if is_copper then layer_Polygon (layers ! i) else [])
       [0..<length layers])"
proof (induction layers arbitrary: n)
  case Nil
  show ?case by simp
next
  case (Cons layer layers)
  have up: "[0..<length (layer # layers)] = 0 # map Suc [0..<length layers]"
    by (simp add: upt_conv_Cons map_Suc_upt del: upt_Suc)
  show ?case
    unfolding up
    by (simp add: Cons.IH [of "Suc n"] comp_def cong: option.case_cong prod.case_cong if_cong)
qed

lemma loop_polygons_emitted:
  "loop_polygons env PCB 0
      (take (env_max_copper_layer env + env_SILK_LAYER env) (Layer PCB))
     = emitted_copper_polygons env PCB"
  unfolding loop_polygons_index emitted_copper_polygons_def
  by (rule arg_cong [where f = concat], rule map_cong)
    (simp_all add: min.commute cong: option.case_cong prod.case_cong if_cong)

text \<open>
  C6. When the output file can be opened and the polygons on the emitted copper layers are
  well formed, the zone blocks of the exported document are, polygon by polygon in the
  order of the layers, one filled zone with the points of the outer boundary followed by
  one keepout zone for each hole with the points of that hole; no other zone block is in
  the document. For each of these polygons the points of its blocks, taken in order, are
  its point list, so that every point is in exactly one of the \<open>H + 1\<close> blocks.
\<close>

theorem kicad_print_polygon_blocks:
  assumes "env_fopen_ok env kicad_filename"
    and "\<forall>polygon\<in>set (emitted_copper_polygons env PCB). polygon_wf polygon"
  shows "map block_shape (zone_blocks (fst (snd (kicad_print env PCB kicad_filename st))))
           = concat (map polygon_shape (emitted_copper_polygons env PCB))
       \<and> (\<forall>polygon\<in>set (emitted_copper_polygons env PCB).
             length (filter fst (polygon_shape polygon)) = 1
             \<and> length (filter (\<lambda>s. \<not> fst s) (polygon_shape polygon)) = HoleIndexN polygon
             \<and> map snd (polygon_shape polygon)
                 = outer_points polygon
                     # map (hole_points polygon) [0..<HoleIndexN polygon]
             \<and> concat (map snd (polygon_shape polygon)) = Points polygon)"
proof (intro conjI ballI)
  let ?layers = "take (env_max_copper_layer env + env_SILK_LAYER env) (Layer PCB)"
  have wf: "\<forall>polygon\<in>set (loop_polygons env PCB 0 ?layers). polygon_wf polygon"
    using assms(2) by (simp only: loop_polygons_emitted)
  have "map block_shape (zone_blocks (fst (snd (kicad_print env PCB kicad_filename st))))
      = map block_shape (zone_blocks (fst (layer_loop env PCB (fst (net_table (NetlistLib PCB)))
          (snd (element_loop env PCB (fst (net_table (NetlistLib PCB))) (Element PCB)
             (st \<lparr> kicad_net_assign := [], kicad_max_net_assign := 1000 \<rparr>))) 0 ?layers)))"
    using assms(1)
    by (simp add: kicad_print_def Let_def case_prod_beta zone_blocks_append
        zone_blocks_net_table zone_blocks_element_loop zone_blocks_via_items)
  also have "\<dots> = concat (map polygon_shape (loop_polygons env PCB 0 ?layers))"
    by (rule zone_blocks_layer_loop [OF wf])
  finally show "map block_shape (zone_blocks (fst (snd (kicad_print env PCB kicad_filename st))))
           = concat (map polygon_shape (emitted_copper_polygons env PCB))"
    by (simp only: loop_polygons_emitted)
next
  fix polygon
  assume "polygon \<in> set (emitted_copper_polygons env PCB)"
  show "length (filter fst (polygon_shape polygon)) = 1"
    by (simp add: polygon_shape_def filter_map comp_def)
next
  fix polygon
  assume "polygon \<in> set (emitted_copper_polygons env PCB)"
  show "length (filter (\<lambda>s. \<not> fst s) (polygon_shape polygon)) = HoleIndexN polygon"
    by (simp add: polygon_shape_def filter_map comp_def)
next
  fix polygon
  assume "polygon \<in> set (emitted_copper_polygons env PCB)"
  show "map snd (polygon_shape polygon)
      = outer_points polygon # map (hole_points polygon) [0..<HoleIndexN polygon]"
    by (simp add: polygon_shape_def comp_def)
next
  fix polygon
  assume "polygon \<in> set (emitted_copper_polygons env PCB)"
  then have "polygon_wf polygon" using assms(2) by blast
  then show "concat (map snd (polygon_shape polygon)) = Points polygon"
    using polygon_partition [of polygon]
    by (simp add: polygon_shape_def comp_def HoleIndexN_def)
qed

text \<open>A board whose only layer is a copper layer of the top group with the example polygon.\<close>

definition layer_poly :: LayerType where
  "layer_poly = \<lparr> layer_Name = ''top'', layer_Type = LT_COPPER,
       layer_Line = [], layer_Arc = [], layer_Polygon = [poly_example], layer_Text = [] \<rparr>"

definition pcb_poly :: PCBType where
  "pcb_poly = \<lparr> Element = [], Via = [], Layer = [layer_poly], NetlistLib = [],
       LayerGroups = lg_example \<rparr>"

lemma emitted_copper_polygons_example:
  "emitted_copper_polygons env_example pcb_poly = [poly_example]"
  by code_simp

lemma kicad_print_polygon_example:
  "map block_shape (zone_blocks (fst (snd
       (kicad_print env_example pcb_poly ''out.kicad_pcb'' st_example))))
     = [(True, [\<lparr>X = 0, Y = 0\<rparr>, \<lparr>X = 90, Y = 0\<rparr>, \<lparr>X = 90, Y = 90\<rparr>, \<lparr>X = 0, Y = 90\<rparr>]),
        (False, [\<lparr>X = 10, Y = 10\<rparr>, \<lparr>X = 20, Y = 10\<rparr>, \<lparr>X = 10, Y = 20\<rparr>]),
        (False, [\<lparr>X = 50, Y = 50\<rparr>, \<lparr>X = 60, Y = 50\<rparr>, \<lparr>X = 50, Y = 60\<rparr>])]"
  by code_simp

theorem kicad_print_polygon_blocks_witness:
  "env_fopen_ok env_example ''out.kicad_pcb''
   \<and> emitted_copper_polygons env_example pcb_poly = [poly_example]
   \<and> polygon_wf poly_example
   \<and> map block_shape (zone_blocks (fst (snd
          (kicad_print env_example pcb_poly ''out.kicad_pcb'' st_example))))
        = polygon_shape poly_example
   \<and> length (filter fst (polygon_shape poly_example)) = 1
   \<and> length (filter (\<lambda>s. \<not> fst s) (polygon_shape poly_example)) = 2
   \<and> map snd (polygon_shape poly_example)
        = [outer_points poly_example, hole_points poly_example 0, hole_points poly_example 1]
   \<and> concat (map snd (polygon_shape poly_example)) = Points poly_example"
proof -
  have f: "env_fopen_ok env_example ''out.kicad_pcb''" by (simp add: env_example_def)
  have e: "emitted_copper_polygons env_example pcb_poly = [poly_example]"
    by (rule emitted_copper_polygons_example)
  have wf: "polygon_wf poly_example" by (rule poly_example_wf)
  have all: "\<forall>polygon\<in>set (emitted_copper_polygons env_example pcb_poly). polygon_wf polygon"
    using wf by (simp add: e)
  have h: "HoleIndexN poly_example = 2" by (simp add: HoleIndexN_def poly_example_def)
  have u: "[0..<2] = [0, Suc 0]" by (simp add: upt_conv_Cons)
  note t = kicad_print_polygon_blocks [OF f all, of st_example, unfolded e]
  have m: "poly_example \<in> set [poly_example]" by simp
  note b = t [THEN conjunct2, THEN bspec, OF m]
  from t have 1: "map block_shape (zone_blocks (fst (snd
          (kicad_print env_example pcb_poly ''out.kicad_pcb'' st_example))))
        = polygon_shape poly_example" by simp
  note 2 = b [THEN conjunct1]
  from b [THEN conjunct2, THEN conjunct1] h
  have 3: "length (filter (\<lambda>s. \<not> fst s) (polygon_shape poly_example)) = 2" by simp
  from b [THEN conjunct2, THEN conjunct2, THEN conjunct1] h u
  have 4: "map snd (polygon_shape poly_example)
        = [outer_points poly_example, hole_points poly_example 0, hole_points poly_example 1]"
    by simp
  note 5 = b [THEN conjunct2, THEN conjunct2, THEN conjunct2]
  from f e wf 1 2 3 4 5 show ?thesis by (intro conjI)
qed

section \<open>Rotation of an element (src/hid/kicad/kicad.c)\<close>

text \<open>
  The angles are of type \<^verbatim>\<open>double\<close>. A \<^verbatim>\<open>double\<close> is modelled by the real number that it
  stands for. The coordinates are converted to \<^verbatim>\<open>double\<close>, subtracted and halved without
  rounding, as it is for a \<^verbatim>\<open>Coord\<close> of 32 bits; the negation and the comparisons of
  \<^verbatim>\<open>double\<close> values are exact as well. The operations whose result is rounded are not part
  of the sources: \<^verbatim>\<open>atan2\<close> of the C library, the multiplication and the division of the
  machine, and the constant \<^verbatim>\<open>M_PI\<close> of \<^verbatim>\<open>math.h\<close>. They are parameters of the model, so
  that what is proved holds for the arithmetic of every machine.

  The sign of a zero is lost in a real number, and \<^verbatim>\<open>atan2\<close> looks at it; so \<^verbatim>\<open>double_atan2\<close>
  is told whether a zero first argument is the negative zero. In \<^verbatim>\<open>xyToAngle\<close> the first
  argument is \<^verbatim>\<open>-y\<close>, where \<^verbatim>\<open>y\<close> is a difference of two numbers, whose zero is
  positive: there it is the negative zero. For the angle of a pad the first argument is an
  integer, whose zero is positive.
\<close>

record double_arith =
  double_atan2 :: "bool \<Rightarrow> real \<Rightarrow> real \<Rightarrow> real"
  double_mul :: "real \<Rightarrow> real \<Rightarrow> real"
  double_div :: "real \<Rightarrow> real \<Rightarrow> real"
  double_M_PI :: real

definition xyToAngle :: "double_arith \<Rightarrow> real \<Rightarrow> real \<Rightarrow> bool \<Rightarrow> real" where
  "xyToAngle dbl x y morethan2pins =
     (let d = double_div dbl (double_mul dbl (double_atan2 dbl True (- y) x) 180)
                (double_M_PI dbl)
      in if morethan2pins then
           (if d < -100 then 90
            else if d < -10 then 180
            else if d < 80 then 270
            else if d < 170 then 0
            else 90)
         else
           (if d < -175 then 0
            else if d < -85 then 90
            else if d < 5 then 180
            else if d < 95 then 270
            else 0))"

definition reference_pin_names :: "string list" where
  "reference_pin_names = [''1'', ''2'', ''A1'', ''A2'', ''B1'', ''B2'']"

text \<open>
  The arrays \<^verbatim>\<open>pinfound\<close>, \<^verbatim>\<open>pinx\<close>, \<^verbatim>\<open>piny\<close> and \<^verbatim>\<open>pinangle\<close>, indexed by \<^verbatim>\<open>rpindex\<close>. The
  last three are not initialised in the code and are read only where \<^verbatim>\<open>pinfound\<close> is set;
  the model starts them at 0.
\<close>

record ref_pins =
  pinfound :: "nat \<Rightarrow> bool"
  pinx :: "nat \<Rightarrow> real"
  piny :: "nat \<Rightarrow> real"
  pinangle :: "nat \<Rightarrow> real"

definition no_ref_pins :: ref_pins where
  "no_ref_pins = \<lparr> pinfound = (\<lambda>rpindex. False), pinx = (\<lambda>rpindex. 0),
                   piny = (\<lambda>rpindex. 0), pinangle = (\<lambda>rpindex. 0) \<rparr>"

text \<open>
  The body of the loop \<^verbatim>\<open>for (rpindex = 0; reference_pin_names[rpindex]; rpindex++)\<close> inside
  \<^verbatim>\<open>PIN_LOOP\<close> and \<^verbatim>\<open>PAD_LOOP\<close>, for a pin or pad with the given number, position and angle,
  and the loop itself. \<^verbatim>\<open>NSTRCMP\<close> compares two strings that are both present as \<^verbatim>\<open>strcmp\<close>
  does. The sums of two coordinates are taken as integers without overflow.
\<close>

definition note_ref_pin :: "string \<Rightarrow> real \<Rightarrow> real \<Rightarrow> real \<Rightarrow> nat \<Rightarrow> ref_pins \<Rightarrow> ref_pins" where
  "note_ref_pin number x y angle rpindex refs =
     (if number = reference_pin_names ! rpindex
      then refs \<lparr> pinfound := (pinfound refs) (rpindex := True),
                  pinx := (pinx refs) (rpindex := x),
                  piny := (piny refs) (rpindex := y),
                  pinangle := (pinangle refs) (rpindex := angle) \<rparr>
      else refs)"

definition note_ref_pins :: "string \<Rightarrow> real \<Rightarrow> real \<Rightarrow> real \<Rightarrow> ref_pins \<Rightarrow> ref_pins" where
  "note_ref_pins number x y angle refs =
     fold (note_ref_pin number x y angle) [0..<length reference_pin_names] refs"

definition note_pin :: "PinType \<Rightarrow> ref_pins \<Rightarrow> ref_pins" where
  "note_pin pin refs =
     note_ref_pins (pin_Number pin) (real_of_int (pin_X pin)) (real_of_int (pin_Y pin)) 0 refs"

definition note_pad :: "double_arith \<Rightarrow> PadType \<Rightarrow> ref_pins \<Rightarrow> ref_pins" where
  "note_pad dbl pad refs =
     (let padcentrex = real_of_int (X (pad_Point1 pad) + X (pad_Point2 pad)) / 2;
          padcentrey = real_of_int (Y (pad_Point1 pad) + Y (pad_Point2 pad)) / 2;
          angle = double_mul dbl (double_div dbl 180 (double_M_PI dbl))
                    (double_atan2 dbl False
                       (real_of_int (Y (pad_Point1 pad) - Y (pad_Point2 pad)))
                       (real_of_int (X (pad_Point2 pad) - X (pad_Point1 pad))))
      in note_ref_pins (pad_Number pad) padcentrex padcentrey angle refs)"

text \<open>The arrays after \<^verbatim>\<open>PIN_LOOP\<close> and \<^verbatim>\<open>PAD_LOOP\<close>, and the count of pins and pads.\<close>

definition ref_pins_of :: "double_arith \<Rightarrow> ElementType \<Rightarrow> ref_pins" where
  "ref_pins_of dbl element =
     fold (note_pad dbl) (Pad element) (fold note_pin (Pin element) no_ref_pins)"

definition pin_cnt :: "ElementType \<Rightarrow> nat" where
  "pin_cnt element = length (Pin element) + length (Pad element)"

text \<open>
  Modelled from the spec: the macro \<^verbatim>\<open>FRONT\<close> is declared in a header that is not among the
  sources. By the spec the X offset is negated "when the element is back-mounted", so an
  element is on the front when its \<^verbatim>\<open>ONSOLDERFLAG\<close> is clear.
\<close>

definition FRONT :: "ElementType \<Rightarrow> int" where
  "FRONT element = (if ONSOLDERFLAG element then 0 else 1)"

text \<open>
  The offset of reference pin \<open>rpindex\<close> from the mark of the element:
  \<^verbatim>\<open>pin1x = pinx[rpindex] - x; pin1y = piny[rpindex] - y;
   if (FRONT (element) != 1) pin1x = -pin1x;\<close>
\<close>

definition recentre :: "ElementType \<Rightarrow> ref_pins \<Rightarrow> nat \<Rightarrow> real \<times> real" where
  "recentre element refs rpindex =
     (let pin1x = pinx refs rpindex - real_of_int (MarkX element);
          pin1y = piny refs rpindex - real_of_int (MarkY element)
      in (if FRONT element \<noteq> 1 then - pin1x else pin1x, pin1y))"

text \<open>
  The loop that finds the first reference pin that is not at the mark, over the indices
  \<^verbatim>\<open>rpindex\<close> still to be tried; \<^verbatim>\<open>theta\<close> stays 0 when the loop ends without a \<^verbatim>\<open>break\<close>.
\<close>

fun first_ref_pin :: "double_arith \<Rightarrow> ElementType \<Rightarrow> ref_pins \<Rightarrow> nat list \<Rightarrow> real" where
  "first_ref_pin dbl element refs [] = 0"
| "first_ref_pin dbl element refs (rpindex # rest) =
     (if pinfound refs rpindex then
        (let (pin1x, pin1y) = recentre element refs rpindex
         in if pin_cnt element = 1 then pinangle refs rpindex
            else if pin1x \<noteq> 0 \<or> pin1y \<noteq> 0
                 then xyToAngle dbl pin1x pin1y (pin_cnt element > 2)
                 else first_ref_pin dbl element refs rest)
      else first_ref_pin dbl element refs rest)"

definition kicad_get_rotation :: "double_arith \<Rightarrow> ElementType \<Rightarrow> real" where
  "kicad_get_rotation dbl element =
     (case xy_fixed_rotation element of
        Some fixed_rotation \<Rightarrow> fixed_rotation
      | None \<Rightarrow>
          if pin_cnt element > 0
          then first_ref_pin dbl element (ref_pins_of dbl element)
                 [0..<length reference_pin_names]
          else 0)"

text \<open>
  The reference pins, said of the element itself and not of the arrays of the code.
  The reference pin of a name is the last pad of the element with that number, at the
  middle of its two end points, or else, when no pad has the number, the last pin with that
  number. Its offset is taken from the mark of the element, and the X offset is negated
  when the element is on the solder side, that is back-mounted.
\<close>

definition reference_pin :: "ElementType \<Rightarrow> string \<Rightarrow> (real \<times> real) option" where
  "reference_pin element name =
     (case find (\<lambda>pad. pad_Number pad = name) (rev (Pad element)) of
        Some pad \<Rightarrow>
          Some (real_of_int (X (pad_Point1 pad) + X (pad_Point2 pad)) / 2,
                real_of_int (Y (pad_Point1 pad) + Y (pad_Point2 pad)) / 2)
      | None \<Rightarrow>
          (case find (\<lambda>pin. pin_Number pin = name) (rev (Pin element)) of
             Some pin \<Rightarrow> Some (real_of_int (pin_X pin), real_of_int (pin_Y pin))
           | None \<Rightarrow> None))"

definition reference_offset :: "ElementType \<Rightarrow> string \<Rightarrow> (real \<times> real) option" where
  "reference_offset element name =
     (case reference_pin element name of
        None \<Rightarrow> None
      | Some (x, y) \<Rightarrow>
          Some (if ONSOLDERFLAG element then - (x - real_of_int (MarkX element))
                else x - real_of_int (MarkX element),
                y - real_of_int (MarkY element)))"

text \<open>
  The angle function and the arithmetic without rounding, as an example of the parameters.
\<close>

definition exact_atan2 :: "real \<Rightarrow> real \<Rightarrow> real" where
  "exact_atan2 y x =
     (if x > 0 then arctan (y / x)
      else if x < 0 then (if y \<ge> 0 then arctan (y / x) + pi else arctan (y / x) - pi)
      else if y > 0 then pi / 2
      else if y < 0 then - pi / 2
      else 0)"

definition exact_arith :: double_arith where
  "exact_arith = \<lparr> double_atan2 = (\<lambda>negative_zero y x.
                        if y = 0 \<and> negative_zero \<and> x < 0 then - pi else exact_atan2 y x),
                    double_mul = (\<lambda>a b. a * b), double_div = (\<lambda>a b. a / b),
                    double_M_PI = pi \<rparr>"

text \<open>
  A back-mounted element with two pads and no pin: pad 1 lies to the left of the mark,
  pad 2 to the right.
\<close>

definition element_C1 :: ElementType where
  "element_C1 = element_R1 \<lparr> MarkX := 100, MarkY := 100, Pin := [],
       Pad := [\<lparr> pad_ID = 3, pad_Point1 = \<lparr>X = 70, Y = 100\<rparr>, pad_Point2 = \<lparr>X = 90, Y = 100\<rparr>,
                 pad_Thickness = 10, pad_Number = ''1'' \<rparr>,
               \<lparr> pad_ID = 4, pad_Point1 = \<lparr>X = 110, Y = 100\<rparr>, pad_Point2 = \<lparr>X = 130, Y = 100\<rparr>,
                 pad_Thickness = 10, pad_Number = ''2'' \<rparr>],
       ONSOLDERFLAG := True \<rparr>"

lemma find_snoc:
  "find P (xs @ [x]) = (case find P xs of None \<Rightarrow> (if P x then Some x else None) | Some y \<Rightarrow> Some y)"
  by (induction xs) simp_all

lemma fold_note_ref_pin:
  "pinfound (fold (note_ref_pin number x y angle) js refs) j
     = (pinfound refs j \<or> (j \<in> set js \<and> number = reference_pin_names ! j))"
  "pinx (fold (note_ref_pin number x y angle) js refs) j
     = (if j \<in> set js \<and> number = reference_pin_names ! j then x else pinx refs j)"
  "piny (fold (note_ref_pin number x y angle) js refs) j
     = (if j \<in> set js \<and> number = reference_pin_names ! j then y else piny refs j)"
  by (induction js arbitrary: refs; auto simp: note_ref_pin_def)+

lemma note_ref_pins_at:
  assumes "j < length reference_pin_names"
  shows "pinfound (note_ref_pins number x y angle refs) j
           = (pinfound refs j \<or> number = reference_pin_names ! j)"
    and "pinx (note_ref_pins number x y angle refs) j
           = (if number = reference_pin_names ! j then x else pinx refs j)"
    and "piny (note_ref_pins number x y angle refs) j
           = (if number = reference_pin_names ! j then y else piny refs j)"
  using assms by (simp_all add: note_ref_pins_def fold_note_ref_pin)

lemma fold_note_pin:
  assumes "j < length reference_pin_names"
  shows "pinfound (fold note_pin pins refs) j
           = (pinfound refs j
              \<or> find (\<lambda>pin. pin_Number pin = reference_pin_names ! j) (rev pins) \<noteq> None)
       \<and> pinx (fold note_pin pins refs) j
           = (case find (\<lambda>pin. pin_Number pin = reference_pin_names ! j) (rev pins) of
                None \<Rightarrow> pinx refs j | Some pin \<Rightarrow> real_of_int (pin_X pin))
       \<and> piny (fold note_pin pins refs) j
           = (case find (\<lambda>pin. pin_Number pin = reference_pin_names ! j) (rev pins) of
                None \<Rightarrow> piny refs j | Some pin \<Rightarrow> real_of_int (pin_Y pin))"
proof (induction pins arbitrary: refs)
  case Nil
  show ?case by simp
next
  case (Cons pin pins)
  show ?case
    using Cons.IH [of "note_pin pin refs"] assms
    by (simp add: find_snoc note_pin_def note_ref_pins_at split: option.splits)
qed

lemma fold_note_pad:
  assumes "j < length reference_pin_names"
  shows "pinfound (fold (note_pad dbl) pads refs) j
           = (pinfound refs j
              \<or> find (\<lambda>pad. pad_Number pad = reference_pin_names ! j) (rev pads) \<noteq> None)
       \<and> pinx (fold (note_pad dbl) pads refs) j
           = (case find (\<lambda>pad. pad_Number pad = reference_pin_names ! j) (rev pads) of
                None \<Rightarrow> pinx refs j
              | Some pad \<Rightarrow> real_of_int (X (pad_Point1 pad) + X (pad_Point2 pad)) / 2)
       \<and> piny (fold (note_pad dbl) pads refs) j
           = (case find (\<lambda>pad. pad_Number pad = reference_pin_names ! j) (rev pads) of
                None \<Rightarrow> piny refs j
              | Some pad \<Rightarrow> real_of_int (Y (pad_Point1 pad) + Y (pad_Point2 pad)) / 2)"
proof (induction pads arbitrary: refs)
  case Nil
  show ?case by simp
next
  case (Cons pad pads)
  show ?case
    using Cons.IH [of "note_pad dbl pad refs"] assms
    by (simp add: find_snoc note_pad_def note_ref_pins_at Let_def split: option.splits)
qed

text \<open>The arrays of the code hold the reference pins of the element.\<close>

lemma ref_pins_of_reference_pin:
  assumes "j < length reference_pin_names"
  shows "reference_pin element (reference_pin_names ! j)
           = (if pinfound (ref_pins_of dbl element) j
              then Some (pinx (ref_pins_of dbl element) j, piny (ref_pins_of dbl element) j)
              else None)"
  using fold_note_pad [OF assms, of dbl "Pad element" "fold note_pin (Pin element) no_ref_pins"]
    fold_note_pin [OF assms, of "Pin element" no_ref_pins]
  by (simp add: ref_pins_of_def reference_pin_def no_ref_pins_def split: option.splits)

lemma ref_pins_of_reference_offset:
  assumes "j < length reference_pin_names"
  shows "reference_offset element (reference_pin_names ! j)
           = (if pinfound (ref_pins_of dbl element) j
              then Some (recentre element (ref_pins_of dbl element) j)
              else None)"
  by (simp add: reference_offset_def ref_pins_of_reference_pin [OF assms, of element dbl]
      recentre_def FRONT_def Let_def)

lemma first_ref_pin_skip:
  assumes "\<forall>j\<in>set pre. pinfound refs j \<longrightarrow> recentre element refs j = (0, 0)"
    and "pin_cnt element \<noteq> 1"
  shows "first_ref_pin dbl element refs (pre @ rest) = first_ref_pin dbl element refs rest"
  using assms by (induction pre) auto

lemma first_ref_pin_chosen:
  assumes "rpindex < n"
    and "pinfound refs rpindex"
    and "recentre element refs rpindex = (pin1x, pin1y)"
    and "pin1x \<noteq> 0 \<or> pin1y \<noteq> 0"
    and "\<forall>j<rpindex. pinfound refs j \<longrightarrow> recentre element refs j = (0, 0)"
    and "pin_cnt element \<noteq> 1"
  shows "first_ref_pin dbl element refs [0..<n] = xyToAngle dbl pin1x pin1y (pin_cnt element > 2)"
proof -
  have split: "[0..<n] = [0..<rpindex] @ rpindex # [Suc rpindex..<n]"
    using assms(1) by (metis le_add_diff_inverse less_imp_le_nat upt_add_eq_append upt_conv_Cons zero_le)
  have "first_ref_pin dbl element refs [0..<n]
      = first_ref_pin dbl element refs (rpindex # [Suc rpindex..<n])"
    unfolding split using assms(5,6) by (intro first_ref_pin_skip) auto
  also have "\<dots> = xyToAngle dbl pin1x pin1y (pin_cnt element > 2)"
    using assms(2,3,4,6) by auto
  finally show ?thesis .
qed

text \<open>
  The reference pin that decides: the first of the names for which the element has a pin
  or pad with an offset that is not zero. With at least two pins and pads the rotation is
  what \<^verbatim>\<open>xyToAngle\<close> makes of this offset.
\<close>

lemma kicad_get_rotation_chosen:
  assumes "xy_fixed_rotation element = None"
    and "rpindex < length reference_pin_names"
    and "reference_offset element (reference_pin_names ! rpindex) = Some (pin1x, pin1y)"
    and "pin1x \<noteq> 0 \<or> pin1y \<noteq> 0"
    and "\<forall>j<rpindex. reference_offset element (reference_pin_names ! j) = None
           \<or> reference_offset element (reference_pin_names ! j) = Some (0, 0)"
    and "length (Pin element) + length (Pad element) \<ge> 2"
  shows "kicad_get_rotation dbl element
           = xyToAngle dbl pin1x pin1y (length (Pin element) + length (Pad element) > 2)"
proof -
  let ?refs = "ref_pins_of dbl element"
  have found: "pinfound ?refs rpindex"
    using assms(3) ref_pins_of_reference_offset [OF assms(2), of element dbl]
    by (simp split: if_splits)
  have here: "recentre element ?refs rpindex = (pin1x, pin1y)"
    using assms(3) ref_pins_of_reference_offset [OF assms(2), of element dbl]
    by (simp split: if_splits)
  have before: "\<forall>j<rpindex. pinfound ?refs j \<longrightarrow> recentre element ?refs j = (0, 0)"
  proof (intro allI impI)
    fix j
    assume j: "j < rpindex" and f: "pinfound ?refs j"
    from j assms(2) have "j < length reference_pin_names" by simp
    from ref_pins_of_reference_offset [OF this, of element dbl] f
    have "reference_offset element (reference_pin_names ! j) = Some (recentre element ?refs j)"
      by simp
    with assms(5) j show "recentre element ?refs j = (0, 0)" by auto
  qed
  have cnt: "pin_cnt element \<ge> 2" using assms(6) by (simp add: pin_cnt_def)
  have pos: "pin_cnt element > 0" using cnt by simp
  have "first_ref_pin dbl element ?refs [0..<length reference_pin_names]
      = xyToAngle dbl pin1x pin1y (pin_cnt element > 2)"
    using assms(2) found here assms(4) before cnt by (intro first_ref_pin_chosen) auto
  then have "kicad_get_rotation dbl element = xyToAngle dbl pin1x pin1y (pin_cnt element > 2)"
    using assms(1) pos by (simp add: kicad_get_rotation_def)
  then show ?thesis by (simp add: pin_cnt_def)
qed

text \<open>
  C3. Take an element without a fixed rotation, and let \<open>rpindex\<close> be the first of the
  reference pin names \<^verbatim>\<open>"1", "2", "A1", "A2", "B1", "B2"\<close> for which the element has a pin
  or pad whose offset \<open>(pin1x, pin1y)\<close> from the mark is not zero, the X offset being
  negated when the element is back-mounted. Let \<open>d\<close> be \<^verbatim>\<open>atan2 (-pin1y, pin1x)\<close> in
  degrees, as the machine computes \<^verbatim>\<open>atan2 (-y, x) * 180.0 / M_PI\<close> in its \<^verbatim>\<open>double\<close>
  arithmetic. Then the rotation is given by the table for two pins when the element has
  exactly two pins and pads, and by the table for more than two when it has more.
\<close>

theorem kicad_get_rotation_buckets:
  assumes "xy_fixed_rotation element = None"
    and "rpindex < length reference_pin_names"
    and "reference_offset element (reference_pin_names ! rpindex) = Some (pin1x, pin1y)"
    and "pin1x \<noteq> 0 \<or> pin1y \<noteq> 0"
    and "\<forall>j<rpindex. reference_offset element (reference_pin_names ! j) = None
           \<or> reference_offset element (reference_pin_names ! j) = Some (0, 0)"
    and "d = double_div dbl (double_mul dbl (double_atan2 dbl True (- pin1y) pin1x) 180)
               (double_M_PI dbl)"
  shows "(length (Pin element) + length (Pad element) = 2 \<longrightarrow>
            kicad_get_rotation dbl element =
              (if d < -175 then 0 else if d < -85 then 90 else if d < 5 then 180
               else if d < 95 then 270 else 0))
       \<and> (length (Pin element) + length (Pad element) > 2 \<longrightarrow>
            kicad_get_rotation dbl element =
              (if d < -100 then 90 else if d < -10 then 180 else if d < 80 then 270
               else if d < 170 then 0 else 90))"
proof -
  have two: "kicad_get_rotation dbl element = xyToAngle dbl pin1x pin1y False"
    if "length (Pin element) + length (Pad element) = 2"
    using kicad_get_rotation_chosen [OF assms(1-5), of dbl] that by simp
  have more: "kicad_get_rotation dbl element = xyToAngle dbl pin1x pin1y True"
    if "length (Pin element) + length (Pad element) > 2"
    using kicad_get_rotation_chosen [OF assms(1-5), of dbl] that by simp
  show ?thesis
    using two more assms(6) by (auto simp: xyToAngle_def Let_def)
qed

lemma reference_offset_element_C1:
  "reference_offset element_C1 ''1'' = Some (20, 0)"
  "reference_offset element_C1 ''2'' = Some (- 20, 0)"
  by (simp_all add: reference_offset_def reference_pin_def element_C1_def element_R1_def)

lemma reference_offset_element_R1:
  "reference_offset element_R1 ''1'' = Some (0, 0)"
  "reference_offset element_R1 ''2'' = Some (10, 0)"
  by (simp_all add: reference_offset_def reference_pin_def element_R1_def)

text \<open>
  The resistor of the example board: pin 1 is at the mark, so pin 2 decides, which lies at
  \<open>(10, 0)\<close>; without rounding \<open>d\<close> is 0 and the rotation 180.
\<close>

theorem kicad_get_rotation_buckets_witness:
  "xy_fixed_rotation element_R1 = None
   \<and> reference_pin_names ! 1 = ''2''
   \<and> reference_offset element_R1 ''1'' = Some (0, 0)
   \<and> reference_offset element_R1 ''2'' = Some (10, 0)
   \<and> double_div exact_arith (double_mul exact_arith
        (double_atan2 exact_arith True (- 0) 10) 180) (double_M_PI exact_arith) = 0
   \<and> length (Pin element_R1) + length (Pad element_R1) = 2
   \<and> kicad_get_rotation exact_arith element_R1 = 180"
proof -
  have fixed: "xy_fixed_rotation element_R1 = None" by (simp add: element_R1_def)
  have idx: "(1::nat) < length reference_pin_names" by (simp add: reference_pin_names_def)
  have name: "reference_pin_names ! 1 = ''2''" by (simp add: reference_pin_names_def)
  have name0: "reference_pin_names ! 0 = ''1''" by (simp add: reference_pin_names_def)
  have off: "reference_offset element_R1 (reference_pin_names ! 1) = Some (10, 0)"
    by (simp only: name reference_offset_element_R1)
  have nz: "(10::real) \<noteq> 0 \<or> (0::real) \<noteq> 0" by simp
  have before: "\<forall>j<(1::nat). reference_offset element_R1 (reference_pin_names ! j) = None
           \<or> reference_offset element_R1 (reference_pin_names ! j) = Some (0, 0)"
    by (simp add: name0 reference_offset_element_R1)
  have d: "(0::real) = double_div exact_arith (double_mul exact_arith
        (double_atan2 exact_arith True (- 0) 10) 180) (double_M_PI exact_arith)"
    by (simp add: exact_arith_def exact_atan2_def)
  have cnt: "length (Pin element_R1) + length (Pad element_R1) = 2"
    by (simp add: element_R1_def)
  note th = kicad_get_rotation_buckets [OF fixed idx off nz before d]
  from th cnt have r: "kicad_get_rotation exact_arith element_R1 = 180" by simp
  from fixed name reference_offset_element_R1 d [symmetric] cnt r show ?thesis
    by (intro conjI)
qed

text \<open>
  The back-mounted element with two pads: pad 1 lies at \<open>(-20, 0)\<close> from the mark, the
  X offset is negated to 20, and the rotation is 180 again. On the front the offset would
  be \<open>(-20, 0)\<close> and the rotation 0.
\<close>

lemma kicad_get_rotation_element_C1:
  "kicad_get_rotation exact_arith element_C1 = 180"
  "kicad_get_rotation exact_arith (element_C1 \<lparr> ONSOLDERFLAG := False \<rparr>) = 0"
proof -
  have fixed: "xy_fixed_rotation element_C1 = None" by (simp add: element_C1_def element_R1_def)
  have idx: "(0::nat) < length reference_pin_names" by (simp add: reference_pin_names_def)
  have name0: "reference_pin_names ! 0 = ''1''" by (simp add: reference_pin_names_def)
  have off: "reference_offset element_C1 (reference_pin_names ! 0) = Some (20, 0)"
    by (simp only: name0 reference_offset_element_C1)
  have cnt: "length (Pin element_C1) + length (Pad element_C1) = 2"
    by (simp add: element_C1_def element_R1_def)
  from kicad_get_rotation_chosen [OF fixed idx off, of exact_arith] cnt
  show "kicad_get_rotation exact_arith element_C1 = 180"
    by (simp add: xyToAngle_def exact_arith_def exact_atan2_def)
  let ?e = "element_C1 \<lparr> ONSOLDERFLAG := False \<rparr>"
  have fixed': "xy_fixed_rotation ?e = None" by (simp add: element_C1_def element_R1_def)
  have off': "reference_offset ?e (reference_pin_names ! 0) = Some (- 20, 0)"
    by (simp add: name0 reference_offset_def reference_pin_def element_C1_def element_R1_def)
  have cnt': "length (Pin ?e) + length (Pad ?e) = 2"
    by (simp add: element_C1_def element_R1_def)
  from kicad_get_rotation_chosen [OF fixed' idx off', of exact_arith] cnt'
  show "kicad_get_rotation exact_arith ?e = 0"
    by (simp add: xyToAngle_def exact_arith_def)
qed

section \<open>Bounding boxes (src/misc.c)\<close>

text \<open>
  The trigonometry is done in \<^verbatim>\<open>float\<close> and \<^verbatim>\<open>double\<close>; the model computes with real numbers.
  \<^verbatim>\<open>M180\<close> is the constant \<open>\<pi>/180\<close>. The conversion of a floating-point value to an integer
  coordinate drops the fraction, and the division of integers rounds towards zero.
  \<^verbatim>\<open>MAX_COORD\<close> is a constant of a header that is not among the sources: a parameter.
\<close>

definition M180 :: real where
  "M180 = pi / 180"

definition to_int :: "real \<Rightarrow> int" where
  "to_int r = (if r \<ge> 0 then \<lfloor>r\<rfloor> else \<lceil>r\<rceil>)"

definition c_div :: "int \<Rightarrow> int \<Rightarrow> int" where
  "c_div a b = (if (a < 0) = (b < 0) then \<bar>a\<bar> div \<bar>b\<bar> else - (\<bar>a\<bar> div \<bar>b\<bar>))"

definition RightAngles :: "int \<Rightarrow> real \<times> real" where
  "RightAngles Angle = (cos (real_of_int Angle * M180), sin (real_of_int Angle * M180))"

text \<open>
  \<^verbatim>\<open>GetArcEnds\<close>: the two end points of the arc. Both coordinates are scaled by
  \<^verbatim>\<open>Arc->Width\<close>.
\<close>

definition GetArcEnds :: "ArcType \<Rightarrow> BoxType" where
  "GetArcEnds arc =
     (let (ca, sa) = RightAngles (arc_StartAngle arc);
          x1 = to_int (real_of_int (arc_X arc) - real_of_int (arc_Width arc) * ca);
          y1 = to_int (real_of_int (arc_Y arc) + real_of_int (arc_Width arc) * sa);
          (ca', sa') = RightAngles (arc_StartAngle arc + arc_Delta arc);
          x2 = to_int (real_of_int (arc_X arc) - real_of_int (arc_Width arc) * ca');
          y2 = to_int (real_of_int (arc_Y arc) + real_of_int (arc_Width arc) * sa')
      in \<lparr> X1 = x1, Y1 = y1, X2 = x2, Y2 = y2 \<rparr>)"

text \<open>\<^verbatim>\<open>SetArcBoundingBox\<close>: the box that is stored in \<^verbatim>\<open>Arc->BoundingBox\<close>.\<close>

definition SetArcBoundingBox :: "ArcType \<Rightarrow> BoxType" where
  "SetArcBoundingBox arc =
     (let box = GetArcEnds arc;
          width = c_div (arc_Thickness arc) 2
      in \<lparr> X1 = min (X1 box) (X2 box) - width, Y1 = min (Y1 box) (Y2 box) - width,
           X2 = max (X2 box) (X1 box) + width, Y2 = max (Y2 box) (Y1 box) + width \<rparr>)"

text \<open>
  The two loops over the arc of an element in \<^verbatim>\<open>SetElementBoundingBox\<close>:
  \<^verbatim>\<open>for (angle = (angle1 / 180 + 1) * 180; angle < angle2; angle += 180)\<close> for the X limits and
  \<^verbatim>\<open>for (angle = ((angle1 + 90) / 180) * 180 + 90; angle < angle2; angle += 180)\<close> for the
  Y limits.
\<close>

function x_limits :: "int \<Rightarrow> int \<Rightarrow> real \<times> real \<Rightarrow> real \<times> real" where
  "x_limits angle angle2 (fminx, fmaxx) =
     (if angle < angle2
      then x_limits (angle + 180) angle2
             (min (- cos (M180 * real_of_int angle)) fminx,
              max (- cos (M180 * real_of_int angle)) fmaxx)
      else (fminx, fmaxx))"
  by pat_completeness auto
termination
  by (relation "measure (\<lambda>(angle, angle2, f). nat (angle2 - angle))") auto

function y_limits :: "int \<Rightarrow> int \<Rightarrow> real \<times> real \<Rightarrow> real \<times> real" where
  "y_limits angle angle2 (fminy, fmaxy) =
     (if angle < angle2
      then y_limits (angle + 180) angle2
             (min (sin (M180 * real_of_int angle)) fminy,
              max (sin (M180 * real_of_int angle)) fmaxy)
      else (fminy, fmaxy))"
  by pat_completeness auto
termination
  by (relation "measure (\<lambda>(angle, angle2, f). nat (angle2 - angle))") auto

declare x_limits.simps [simp del] y_limits.simps [simp del]

text \<open>
  The bodies of the loops of \<^verbatim>\<open>SetElementBoundingBox\<close> over the lines, pins, arcs and pads
  of the element. The box holds \<^verbatim>\<open>minx\<close>, \<^verbatim>\<open>miny\<close>, \<^verbatim>\<open>maxx\<close>, \<^verbatim>\<open>maxy\<close>.
\<close>

definition add_line :: "LineType \<Rightarrow> BoxType \<Rightarrow> BoxType" where
  "add_line line b =
     (let t = c_div (line_Thickness line) 2
      in \<lparr> X1 = min (min (X1 b) (X (line_Point1 line) - t)) (X (line_Point2 line) - t),
           Y1 = min (min (Y1 b) (Y (line_Point1 line) - t)) (Y (line_Point2 line) - t),
           X2 = max (max (X2 b) (X (line_Point1 line) + t)) (X (line_Point2 line) + t),
           Y2 = max (max (Y2 b) (Y (line_Point1 line) + t)) (Y (line_Point2 line) + t) \<rparr>)"

definition add_pin :: "PinType \<Rightarrow> BoxType \<Rightarrow> BoxType" where
  "add_pin pin b =
     (let t = c_div (pin_Thickness pin) 2
      in \<lparr> X1 = min (X1 b) (pin_X pin - t), Y1 = min (Y1 b) (pin_Y pin - t),
           X2 = max (X2 b) (pin_X pin + t), Y2 = max (Y2 b) (pin_Y pin + t) \<rparr>)"

definition add_arc :: "ArcType \<Rightarrow> BoxType \<Rightarrow> BoxType" where
  "add_arc arc b =
     (let angle1 = arc_StartAngle arc;
          angle2 = arc_StartAngle arc + arc_Delta arc;
          c1 = - cos (M180 * real_of_int angle1);
          c2 = - cos (M180 * real_of_int angle2);
          s1 = sin (M180 * real_of_int angle1);
          s2 = sin (M180 * real_of_int angle2);
          (fminx, fmaxx) = x_limits ((c_div angle1 180 + 1) * 180) angle2 (min c1 c2, max c1 c2);
          (fminy, fmaxy) = y_limits (c_div (angle1 + 90) 180 * 180 + 90) angle2
                             (min s1 s2, max s1 s2)
      in \<lparr> X1 = min (X1 b) (to_int (fminx * real_of_int (arc_Width arc)) + arc_X arc),
           Y1 = min (Y1 b) (to_int (fminy * real_of_int (arc_Height arc)) + arc_Y arc),
           X2 = max (X2 b) (to_int (fmaxx * real_of_int (arc_Width arc)) + arc_X arc),
           Y2 = max (Y2 b) (to_int (fmaxy * real_of_int (arc_Height arc)) + arc_Y arc) \<rparr>)"

definition add_pad :: "PadType \<Rightarrow> BoxType \<Rightarrow> BoxType" where
  "add_pad pad b =
     (let t = c_div (pad_Thickness pad) 2
      in \<lparr> X1 = min (min (X1 b) (X (pad_Point1 pad) - t)) (X (pad_Point2 pad) - t),
           Y1 = min (min (Y1 b) (Y (pad_Point1 pad) - t)) (Y (pad_Point2 pad) - t),
           X2 = max (max (X2 b) (X (pad_Point1 pad) + t)) (X (pad_Point2 pad) + t),
           Y2 = max (max (Y2 b) (Y (pad_Point1 pad) + t)) (Y (pad_Point2 pad) + t) \<rparr>)"

text \<open>
  \<^verbatim>\<open>SetElementBoundingBox\<close>: the box that is stored in \<^verbatim>\<open>Element->BoundingBox\<close>. The limits
  start at \<^verbatim>\<open>minx = miny = MAX_COORD\<close> and \<^verbatim>\<open>maxx = maxy = 0\<close>. The texts of the element
  are not included. The \<^verbatim>\<open>EDGE2FLAG\<close> bits that the function sets on pads and pins are not
  part of the model.
\<close>

definition SetElementBoundingBox :: "int \<Rightarrow> ElementType \<Rightarrow> BoxType" where
  "SetElementBoundingBox MAX_COORD Element' =
     fold add_pad (Pad Element')
       (fold add_arc (Arc Element')
          (fold add_pin (Pin Element')
             (fold add_line (Line Element')
                \<lparr> X1 = MAX_COORD, Y1 = MAX_COORD, X2 = 0, Y2 = 0 \<rparr>)))"

text \<open>
  \<^verbatim>\<open>GetObjectBoundingBox (Type, Ptr1, Ptr2, Ptr3)\<close> for the object types of an element. The
  box of an arc is the one \<^verbatim>\<open>SetArcBoundingBox\<close> has stored, the box of an element the one
  \<^verbatim>\<open>SetElementBoundingBox\<close> has stored, widened to hold the box of the text
  \<^verbatim>\<open>NAMEONPCB_TEXT\<close>.
\<close>

datatype object_ptr =
  VIA_TYPE PinType
  | LINE_TYPE LineType
  | ARC_TYPE ArcType
  | TEXT_TYPE TextType
  | ELEMENT_TYPE ElementType
  | PAD_TYPE PadType
  | PIN_TYPE PinType

fun GetObjectBoundingBox :: "int \<Rightarrow> object_ptr \<Rightarrow> BoxType" where
  "GetObjectBoundingBox MAX_COORD (VIA_TYPE via) =
     \<lparr> X1 = pin_X via - c_div (pin_Thickness via) 2, Y1 = pin_Y via - c_div (pin_Thickness via) 2,
       X2 = pin_X via + c_div (pin_Thickness via) 2, Y2 = pin_Y via + c_div (pin_Thickness via) 2 \<rparr>"
| "GetObjectBoundingBox MAX_COORD (LINE_TYPE line) =
     \<lparr> X1 = min (X (line_Point1 line)) (X (line_Point2 line)) - c_div (line_Thickness line) 2,
       Y1 = min (Y (line_Point1 line)) (Y (line_Point2 line)) - c_div (line_Thickness line) 2,
       X2 = max (X (line_Point1 line)) (X (line_Point2 line)) + c_div (line_Thickness line) 2,
       Y2 = max (Y (line_Point1 line)) (Y (line_Point2 line)) + c_div (line_Thickness line) 2 \<rparr>"
| "GetObjectBoundingBox MAX_COORD (ARC_TYPE arc) = SetArcBoundingBox arc"
| "GetObjectBoundingBox MAX_COORD (TEXT_TYPE text) = text_BoundingBox text"
| "GetObjectBoundingBox MAX_COORD (ELEMENT_TYPE element) =
     (let box = SetElementBoundingBox MAX_COORD element;
          text = text_BoundingBox (NAMEONPCB_TEXT element)
      in \<lparr> X1 = (if X1 text < X1 box then X1 text else X1 box),
           Y1 = (if Y1 text < Y1 box then Y1 text else Y1 box),
           X2 = (if X2 text > X2 box then X2 text else X2 box),
           Y2 = (if Y2 text > Y2 box then Y2 text else Y2 box) \<rparr>)"
| "GetObjectBoundingBox MAX_COORD (PAD_TYPE pad) =
     \<lparr> X1 = min (X (pad_Point1 pad)) (X (pad_Point2 pad)) - pad_Thickness pad,
       Y1 = min (Y (pad_Point1 pad)) (Y (pad_Point2 pad)) - pad_Thickness pad,
       X2 = max (X (pad_Point1 pad)) (X (pad_Point2 pad)) + pad_Thickness pad,
       Y2 = max (Y (pad_Point1 pad)) (Y (pad_Point2 pad)) + pad_Thickness pad \<rparr>"
| "GetObjectBoundingBox MAX_COORD (PIN_TYPE pin) =
     \<lparr> X1 = pin_X pin - c_div (pin_Thickness pin) 2, Y1 = pin_Y pin - c_div (pin_Thickness pin) 2,
       X2 = pin_X pin + c_div (pin_Thickness pin) 2, Y2 = pin_Y pin + c_div (pin_Thickness pin) 2 \<rparr>"

text \<open>The union of boxes: the smallest box that holds them.\<close>

definition box_union :: "BoxType \<Rightarrow> BoxType \<Rightarrow> BoxType" where
  "box_union a b = \<lparr> X1 = min (X1 a) (X1 b), Y1 = min (Y1 a) (Y1 b),
                     X2 = max (X2 a) (X2 b), Y2 = max (Y2 a) (Y2 b) \<rparr>"

text \<open>
  The union of the boxes of the lines, pins, pads and arcs of an element and of its
  reference designator text, each box as \<^verbatim>\<open>GetObjectBoundingBox\<close> gives it.
\<close>

definition primitive_boxes :: "int \<Rightarrow> ElementType \<Rightarrow> BoxType list" where
  "primitive_boxes MAX_COORD element =
     map (\<lambda>line. GetObjectBoundingBox MAX_COORD (LINE_TYPE line)) (Line element)
     @ map (\<lambda>pin. GetObjectBoundingBox MAX_COORD (PIN_TYPE pin)) (Pin element)
     @ map (\<lambda>pad. GetObjectBoundingBox MAX_COORD (PAD_TYPE pad)) (Pad element)
     @ map (\<lambda>arc. GetObjectBoundingBox MAX_COORD (ARC_TYPE arc)) (Arc element)"

definition union_of_primitives :: "int \<Rightarrow> ElementType \<Rightarrow> BoxType" where
  "union_of_primitives MAX_COORD element =
     fold box_union (primitive_boxes MAX_COORD element)
       (GetObjectBoundingBox MAX_COORD (TEXT_TYPE (NAMEONPCB_TEXT element)))"

text \<open>
  Examples: a quarter arc and a half arc of radius 50 and thickness 10 about (100, 100),
  and an element whose one primitive is the quarter arc and whose reference designator
  text lies inside it.
\<close>

definition arc_quarter :: ArcType where
  "arc_quarter = \<lparr> arc_ID = 20, arc_X = 100, arc_Y = 100, arc_Width = 50, arc_Height = 50,
       arc_StartAngle = 0, arc_Delta = 90, arc_Thickness = 10 \<rparr>"

definition arc_half :: ArcType where
  "arc_half = \<lparr> arc_ID = 21, arc_X = 100, arc_Y = 100, arc_Width = 50, arc_Height = 50,
       arc_StartAngle = 0, arc_Delta = 180, arc_Thickness = 10 \<rparr>"

definition text_inside :: "string \<Rightarrow> TextType" where
  "text_inside s = \<lparr> TextString = s, text_BoundingBox = \<lparr> X1 = 60, Y1 = 110, X2 = 80, Y2 = 120 \<rparr> \<rparr>"

definition element_arc :: "ArcType \<Rightarrow> ElementType" where
  "element_arc arc = \<lparr> DESCRIPTION_TEXT = text_inside ''ARC'', NAMEONPCB_TEXT = text_inside ''A1'',
       VALUE_TEXT = text_inside ''x'', MarkX = 100, MarkY = 100,
       Pin = [], Pad = [], Line = [], Arc = [arc], ONSOLDERFLAG = False,
       xy_fixed_rotation = None \<rparr>"

lemma cos_sin_right_angles:
  "cos (M180 * 0) = 1" "sin (M180 * 0) = 0"
  "cos (M180 * 90) = 0" "sin (M180 * 90) = 1"
  "cos (M180 * 180) = -1" "sin (M180 * 180) = 0"
  "cos (0 * M180) = 1" "sin (0 * M180) = 0"
  "cos (90 * M180) = 0" "sin (90 * M180) = 1"
  "cos (180 * M180) = -1" "sin (180 * M180) = 0"
  by (simp_all add: M180_def)

lemma SetArcBoundingBox_arc_quarter:
  "SetArcBoundingBox arc_quarter = \<lparr> X1 = 45, Y1 = 95, X2 = 105, Y2 = 155 \<rparr>"
  by (simp add: SetArcBoundingBox_def GetArcEnds_def RightAngles_def arc_quarter_def
      cos_sin_right_angles to_int_def c_div_def Let_def)

lemma SetArcBoundingBox_arc_half:
  "SetArcBoundingBox arc_half = \<lparr> X1 = 45, Y1 = 95, X2 = 155, Y2 = 105 \<rparr>"
  by (simp add: SetArcBoundingBox_def GetArcEnds_def RightAngles_def arc_half_def
      cos_sin_right_angles to_int_def c_div_def Let_def)

lemma add_arc_quarter:
  "add_arc arc_quarter \<lparr> X1 = 3000000, Y1 = 3000000, X2 = 0, Y2 = 0 \<rparr>
     = \<lparr> X1 = 50, Y1 = 100, X2 = 100, Y2 = 150 \<rparr>"
  by (simp add: add_arc_def arc_quarter_def c_div_def x_limits.simps y_limits.simps
      cos_sin_right_angles to_int_def Let_def)

lemma add_arc_half:
  "add_arc arc_half \<lparr> X1 = 3000000, Y1 = 3000000, X2 = 0, Y2 = 0 \<rparr>
     = \<lparr> X1 = 50, Y1 = 100, X2 = 150, Y2 = 150 \<rparr>"
  by (simp add: add_arc_def arc_half_def c_div_def x_limits.simps y_limits.simps
      cos_sin_right_angles to_int_def Let_def)

text \<open>
  C4 fails on the code. \<^verbatim>\<open>SetElementBoundingBox\<close> widens the box by half the thickness for
  the lines, pins and pads, but not for the arcs. For the element whose one primitive is
  the quarter arc of thickness 10, the box of the element is the box of the centre line of
  the arc, from (50, 100) to (100, 150), while the box of the arc itself is from (45, 95)
  to (105, 155): the box of the element is not the union of the boxes of its primitives
  and of its reference designator text, and does not even hold the box of its arc.
\<close>

theorem element_box_without_arc_thickness:
  "GetObjectBoundingBox 3000000 (ELEMENT_TYPE (element_arc arc_quarter))
     = \<lparr> X1 = 50, Y1 = 100, X2 = 100, Y2 = 150 \<rparr>
   \<and> GetObjectBoundingBox 3000000 (ARC_TYPE arc_quarter)
     = \<lparr> X1 = 45, Y1 = 95, X2 = 105, Y2 = 155 \<rparr>
   \<and> union_of_primitives 3000000 (element_arc arc_quarter)
     = \<lparr> X1 = 45, Y1 = 95, X2 = 105, Y2 = 155 \<rparr>
   \<and> GetObjectBoundingBox 3000000 (ELEMENT_TYPE (element_arc arc_quarter))
     \<noteq> union_of_primitives 3000000 (element_arc arc_quarter)"
  by (simp add: SetElementBoundingBox_def element_arc_def add_arc_quarter
      SetArcBoundingBox_arc_quarter union_of_primitives_def primitive_boxes_def box_union_def
      text_inside_def)

text \<open>
  C5 fails on the code. \<^verbatim>\<open>SetArcBoundingBox\<close> takes the box of the two end points from
  \<^verbatim>\<open>GetArcEnds\<close> and widens it by half the thickness; it never looks at the multiples of
  90 degrees between the ends. For the half arc from 0 to 180 degrees the box ends at
  \<open>Y2 = 105\<close>, though 90 degrees lies strictly between the ends and the point of the arc
  there, with half the thickness, reaches 155. The loop over the arcs of an element in
  \<^verbatim>\<open>SetElementBoundingBox\<close> does extend the limits at these angles (\<open>Y2 = 150\<close> for the same
  arc) and adds no thickness.
\<close>

theorem arc_box_without_quadrant_points:
  "SetArcBoundingBox arc_half = \<lparr> X1 = 45, Y1 = 95, X2 = 155, Y2 = 105 \<rparr>
   \<and> arc_StartAngle arc_half < 90 \<and> 90 < arc_StartAngle arc_half + arc_Delta arc_half
   \<and> arc_Y arc_half + to_int (sin (M180 * 90) * real_of_int (arc_Height arc_half))
        + c_div (arc_Thickness arc_half) 2 = 155
   \<and> SetElementBoundingBox 3000000 (element_arc arc_half)
        = \<lparr> X1 = 50, Y1 = 100, X2 = 150, Y2 = 150 \<rparr>"
proof -
  have between: "arc_StartAngle arc_half < 90 \<and> 90 < arc_StartAngle arc_half + arc_Delta arc_half"
    by (simp add: arc_half_def)
  have top: "arc_Y arc_half + to_int (sin (M180 * 90) * real_of_int (arc_Height arc_half))
        + c_div (arc_Thickness arc_half) 2 = 155"
    by (simp add: arc_half_def cos_sin_right_angles to_int_def c_div_def)
  have element: "SetElementBoundingBox 3000000 (element_arc arc_half)
        = \<lparr> X1 = 50, Y1 = 100, X2 = 150, Y2 = 150 \<rparr>"
    by (simp add: SetElementBoundingBox_def element_arc_def add_arc_half)
  from SetArcBoundingBox_arc_half between top element show ?thesis by blast
qed

end
